theory Spec2Isabelle
  imports Main
begin

section \<open>Deployment script and test harness of the Havven contracts\<close>

text \<open>
  The development embeds \<^verbatim>\<open>deploy.py\<close>, \<^verbatim>\<open>run_tests.py\<close>,
  \<^verbatim>\<open>tests/test_utils.py\<close>, the facade
  \<^verbatim>\<open>tests/contract_interfaces/extern_state_fee_token_interface.py\<close> and the
  set-up and tear-down of the test classes. Python functions become state-passing
  functions over a world \<open>'w\<close> (the execution backend together with the terminal);
  a raised exception is the left injection of a sum.
\<close>

subsection \<open>Backend values\<close>

type_synonym address = string
type_synonym txhash = nat

text \<open>Arguments of constructors and of contract functions.\<close>

datatype arg = Addr address | Num int | Str string

text \<open>The receipt of a mined transaction: success flag and consumed gas.\<close>

record receipt =
  status :: bool
  gasUsed :: nat

text \<open>A web3 contract object; the script reads only its \<^verbatim>\<open>address\<close>.\<close>

record contract =
  artifact :: string
  address :: address

text \<open>
  \<^verbatim>\<open>contract.functions.f(args)\<close>: a prepared call, not yet submitted.
\<close>

record invocation =
  target :: address
  fname :: string
  fargs :: "arg list"

type_synonym compiled = "string list"

subsection \<open>The helpers of \<^verbatim>\<open>utils.deployutils\<close>\<close>

text \<open>
  \<^verbatim>\<open>utils/deployutils.py\<close> is not among the sources. Its functions and
  constants are parameters of the model: every theorem that is stated for an arbitrary
  \<open>U\<close> holds for whatever these helpers do. An exception raised by a helper is
  \<open>Inl\<close>; a helper may also return a receipt whose \<open>status\<close> is \<open>False\<close>.
  \<open>emit\<close> is Python's \<^verbatim>\<open>print\<close> acting on the world.
\<close>

record ('w, 'e) deployutils =
  MASTER :: address
  UNIT :: int
  emit :: "string \<Rightarrow> 'w \<Rightarrow> 'w"
  attach :: "string \<Rightarrow> 'e \<Rightarrow> 'e"
  report_done :: "'w \<Rightarrow> 'w"
  compile_contracts :: "string list \<Rightarrow> 'w \<Rightarrow> ('e + compiled) \<times> 'w"
  attempt_deploy ::
    "compiled \<Rightarrow> string \<Rightarrow> address \<Rightarrow> arg list \<Rightarrow> 'w \<Rightarrow> ('e + contract \<times> receipt) \<times> 'w"
  transact :: "invocation \<Rightarrow> address \<Rightarrow> 'w \<Rightarrow> ('e + txhash) \<times> 'w"
  mine_txs :: "txhash list \<Rightarrow> 'w \<Rightarrow> ('e + receipt list) \<times> 'w"

text \<open>
  Modelled from the spec: \<^verbatim>\<open>attempt\<close> of \<^verbatim>\<open>utils.deployutils\<close>, which is
  missing from the sources. Section 4.1 of the specification: it reports one progress
  line for the named step before running it and a completion marker after; on an error
  of the step it re-raises after attaching the step name; it does not retry. The
  wording of the marker (\<open>report_done\<close>) and the way the name is attached
  (\<open>attach\<close>) are parameters.
\<close>

definition attempt ::
  "('w, 'e) deployutils \<Rightarrow> ('a \<Rightarrow> 'w \<Rightarrow> ('e + 'r) \<times> 'w) \<Rightarrow> 'a \<Rightarrow> string \<Rightarrow> 'w \<Rightarrow> ('e + 'r) \<times> 'w"
where
  "attempt U function func_arg init_string w =
     (case function func_arg (emit U init_string w) of
        (Inl e, w') \<Rightarrow> (Inl (attach U init_string e), w')
      | (Inr result, w') \<Rightarrow> (Inr result, report_done U w'))"

subsection \<open>\<^verbatim>\<open>deploy.py\<close>\<close>

definition SOLIDITY_SOURCES :: "string list" where
  "SOLIDITY_SOURCES =
     [''contracts/Havven.sol'', ''contracts/EtherNomin.sol'',
      ''contracts/Court.sol'', ''contracts/HavvenEscrow.sol'']"

definition OWNER :: "('w, 'e) deployutils \<Rightarrow> address" where
  "OWNER U = MASTER U"

definition ORACLE :: "('w, 'e) deployutils \<Rightarrow> address" where
  "ORACLE U = MASTER U"

definition LIQUIDATION_BENEFICIARY :: "('w, 'e) deployutils \<Rightarrow> address" where
  "LIQUIDATION_BENEFICIARY U = MASTER U"

definition INITIAL_ETH_PRICE :: "('w, 'e) deployutils \<Rightarrow> int" where
  "INITIAL_ETH_PRICE U = 1000 * UNIT U"

definition NL :: string where
  "NL = [CHR 0x0A]"

text \<open>The constructor arguments of the four deployment steps, lines 19 to 32.\<close>

definition havven_args :: "('w, 'e) deployutils \<Rightarrow> arg list" where
  "havven_args U = [Addr (OWNER U)]"

definition nomin_args :: "('w, 'e) deployutils \<Rightarrow> contract \<Rightarrow> arg list" where
  "nomin_args U havven_contract =
     [Addr (address havven_contract), Addr (ORACLE U), Addr (LIQUIDATION_BENEFICIARY U),
      Num (INITIAL_ETH_PRICE U), Addr (OWNER U)]"

definition court_args :: "('w, 'e) deployutils \<Rightarrow> contract \<Rightarrow> contract \<Rightarrow> arg list" where
  "court_args U havven_contract nomin_contract =
     [Addr (address havven_contract), Addr (address nomin_contract), Addr (OWNER U)]"

definition escrow_args :: "('w, 'e) deployutils \<Rightarrow> contract \<Rightarrow> contract \<Rightarrow> arg list" where
  "escrow_args U havven_contract nomin_contract =
     [Addr (OWNER U), Addr (address havven_contract), Addr (address nomin_contract)]"

text \<open>The three prepared link calls of lines 35 to 37.\<close>

definition setNomin :: "contract \<Rightarrow> contract \<Rightarrow> invocation" where
  "setNomin havven_contract nomin_contract =
     \<lparr>target = address havven_contract, fname = ''setNomin'',
      fargs = [Addr (address nomin_contract)]\<rparr>"

definition setEscrow :: "contract \<Rightarrow> contract \<Rightarrow> invocation" where
  "setEscrow havven_contract escrow_contract =
     \<lparr>target = address havven_contract, fname = ''setEscrow'',
      fargs = [Addr (address escrow_contract)]\<rparr>"

definition setCourt :: "contract \<Rightarrow> contract \<Rightarrow> invocation" where
  "setCourt nomin_contract court_contract =
     \<lparr>target = address nomin_contract, fname = ''setCourt'',
      fargs = [Addr (address court_contract)]\<rparr>"

text \<open>
  Lines 18 to 32: the four calls of \<^verbatim>\<open>attempt_deploy\<close>, in the order of the
  script. The script has no \<^verbatim>\<open>try\<close>: an exception of a helper leaves the function
  at once.
\<close>

type_synonym deployed = "contract \<times> receipt"

definition deploy_contracts ::
  "('w, 'e) deployutils \<Rightarrow> compiled \<Rightarrow> 'w \<Rightarrow>
     ('e + deployed \<times> deployed \<times> deployed \<times> deployed) \<times> 'w"
where
  "deploy_contracts U compiled w =
     (case attempt_deploy U compiled ''Havven'' (MASTER U) (havven_args U) w of
        (Inl e, w1) \<Rightarrow> (Inl e, w1)
      | (Inr (havven_contract, hvn_txr), w1) \<Rightarrow>
     (case attempt_deploy U compiled ''EtherNomin'' (MASTER U)
             (nomin_args U havven_contract) w1 of
        (Inl e, w2) \<Rightarrow> (Inl e, w2)
      | (Inr (nomin_contract, nom_txr), w2) \<Rightarrow>
     (case attempt_deploy U compiled ''Court'' (MASTER U)
             (court_args U havven_contract nomin_contract) w2 of
        (Inl e, w3) \<Rightarrow> (Inl e, w3)
      | (Inr (court_contract, court_txr), w3) \<Rightarrow>
     (case attempt_deploy U compiled ''HavvenEscrow'' (MASTER U)
             (escrow_args U havven_contract nomin_contract) w3 of
        (Inl e, w4) \<Rightarrow> (Inl e, w4)
      | (Inr (escrow_contract, escrow_txr), w4) \<Rightarrow>
          (Inr ((havven_contract, hvn_txr), (nomin_contract, nom_txr),
                (court_contract, court_txr), (escrow_contract, escrow_txr)), w4)))))"

text \<open>
  Lines 34 to 38. Python evaluates the list display first, element by element: the three
  \<^verbatim>\<open>transact\<close> calls run before \<^verbatim>\<open>attempt(mine_txs, [txs], ...)\<close> is
  entered.
\<close>

definition link_contracts ::
  "('w, 'e) deployutils \<Rightarrow> contract \<Rightarrow> contract \<Rightarrow> contract \<Rightarrow> contract \<Rightarrow> 'w \<Rightarrow>
     ('e + receipt list) \<times> 'w"
where
  "link_contracts U havven_contract nomin_contract court_contract escrow_contract w =
     (case transact U (setNomin havven_contract nomin_contract) (MASTER U) w of
        (Inl e, w1) \<Rightarrow> (Inl e, w1)
      | (Inr tx1, w1) \<Rightarrow>
     (case transact U (setEscrow havven_contract escrow_contract) (MASTER U) w1 of
        (Inl e, w2) \<Rightarrow> (Inl e, w2)
      | (Inr tx2, w2) \<Rightarrow>
     (case transact U (setCourt nomin_contract court_contract) (MASTER U) w2 of
        (Inl e, w3) \<Rightarrow> (Inl e, w3)
      | (Inr tx3, w3) \<Rightarrow>
          attempt U (mine_txs U) [tx1, tx2, tx3] ''Linking contracts... '' w3)))"

text \<open>Lines 42 to 49: the optional listing of the four addresses.\<close>

definition print_address_lines ::
  "('w, 'e) deployutils \<Rightarrow> contract \<Rightarrow> contract \<Rightarrow> contract \<Rightarrow> contract \<Rightarrow> 'w \<Rightarrow> 'w"
where
  "print_address_lines U havven_contract nomin_contract court_contract escrow_contract w =
     emit U []
       (emit U (''Escrow: '' @ address escrow_contract)
         (emit U (''Court:  '' @ address court_contract)
           (emit U (''Nomin:  '' @ address nomin_contract)
             (emit U (''Havven: '' @ address havven_contract)
               (emit U (''========'' @ NL)
                 (emit U ''Addresses'' w))))))"

text \<open>
  \<^verbatim>\<open>deploy_havven\<close>, lines 13 to 51. The value of the linking step is discarded
  (line 38 is an expression statement); the returned tuple is the one of line 51.
\<close>

definition deploy_havven ::
  "('w, 'e) deployutils \<Rightarrow> bool \<Rightarrow> 'w \<Rightarrow>
     ('e + contract \<times> contract \<times> contract \<times> receipt \<times> receipt \<times> receipt) \<times> 'w"
where
  "deploy_havven U print_addresses w =
     (case attempt U (compile_contracts U) SOLIDITY_SOURCES ''Compiling contracts... ''
             (emit U (''Deployment initiated.'' @ NL) w) of
        (Inl e, w1) \<Rightarrow> (Inl e, w1)
      | (Inr compiled, w1) \<Rightarrow>
     (case deploy_contracts U compiled w1 of
        (Inl e, w2) \<Rightarrow> (Inl e, w2)
      | (Inr ((havven_contract, hvn_txr), (nomin_contract, nom_txr),
              (court_contract, court_txr), (escrow_contract, escrow_txr)), w2) \<Rightarrow>
     (case link_contracts U havven_contract nomin_contract court_contract escrow_contract w2 of
        (Inl e, w3) \<Rightarrow> (Inl e, w3)
      | (Inr _, w3) \<Rightarrow>
          (let w4 = emit U (NL @ ''Deployment complete.'' @ NL) w3;
               w5 = (if print_addresses
                     then print_address_lines U havven_contract nomin_contract
                            court_contract escrow_contract w4
                     else w4)
           in (Inr (havven_contract, nomin_contract, court_contract,
                    hvn_txr, nom_txr, court_txr), w5)))))"

subsection \<open>A reference backend\<close>

text \<open>
  Modelled from the spec: the helpers of \<^verbatim>\<open>utils.deployutils\<close> over one
  concrete backend, used to run the script on concrete inputs. The backend assigns the
  addresses of \<open>fresh\<close> in turn and rejects the constructors and operations named in
  \<open>reverting\<close>; a rejected deployment raises, a rejected transaction is mined into a
  receipt whose \<open>status\<close> is \<open>False\<close> (section 3 of the specification:
  a receipt carries a success flag). Every call that reaches the backend is appended to
  \<open>events\<close>.
\<close>

datatype failure = CompilationError | DeploymentFailure string | LinkFailure string
  | BackendTimeout | InStep string failure

datatype event = Compiled "string list" | Deployed string address "arg list" address
  | DeployRejected string | Submitted txhash invocation address | Mined "txhash list"

record ganache =
  stdout :: "string list"
  events :: "event list"
  fresh :: "address list"
  reverting :: "string list"
  stalled :: bool

definition log_event :: "event \<Rightarrow> ganache \<Rightarrow> ganache" where
  "log_event ev w = w\<lparr>events := events w @ [ev]\<rparr>"

definition g_emit :: "string \<Rightarrow> ganache \<Rightarrow> ganache" where
  "g_emit s w = w\<lparr>stdout := stdout w @ [s]\<rparr>"

definition g_compile_contracts ::
  "string list \<Rightarrow> ganache \<Rightarrow> (failure + compiled) \<times> ganache"
where
  "g_compile_contracts sources w = (Inr sources, log_event (Compiled sources) w)"

definition g_attempt_deploy ::
  "compiled \<Rightarrow> string \<Rightarrow> address \<Rightarrow> arg list \<Rightarrow> ganache \<Rightarrow>
     (failure + contract \<times> receipt) \<times> ganache"
where
  "g_attempt_deploy compiled name sender args w =
     (if name \<in> set (reverting w)
      then (Inl (DeploymentFailure name), log_event (DeployRejected name) w)
      else (case fresh w of
              [] \<Rightarrow> (Inl BackendTimeout, w)
            | a # rest \<Rightarrow>
                (Inr (\<lparr>artifact = name, address = a\<rparr>,
                      \<lparr>status = True, gasUsed = 53000 + length args\<rparr>),
                 log_event (Deployed name a args sender) (w\<lparr>fresh := rest\<rparr>))))"

definition g_transact ::
  "invocation \<Rightarrow> address \<Rightarrow> ganache \<Rightarrow> (failure + txhash) \<times> ganache"
where
  "g_transact call sender w =
     (Inr (length (events w)), log_event (Submitted (length (events w)) call sender) w)"

fun submitted_name :: "event list \<Rightarrow> txhash \<Rightarrow> string option" where
  "submitted_name [] tx = None"
| "submitted_name (Submitted h call sender # evs) tx =
     (if h = tx then Some (fname call) else submitted_name evs tx)"
| "submitted_name (ev # evs) tx = submitted_name evs tx"

definition g_receipt :: "ganache \<Rightarrow> txhash \<Rightarrow> receipt" where
  "g_receipt w tx =
     (case submitted_name (events w) tx of
        None \<Rightarrow> \<lparr>status = False, gasUsed = 0\<rparr>
      | Some f \<Rightarrow> \<lparr>status = f \<notin> set (reverting w), gasUsed = 21000\<rparr>)"

definition g_mine_txs ::
  "txhash list \<Rightarrow> ganache \<Rightarrow> (failure + receipt list) \<times> ganache"
where
  "g_mine_txs tx_hashes w =
     (if stalled w then (Inl BackendTimeout, log_event (Mined tx_hashes) w)
      else (Inr (map (g_receipt w) tx_hashes), log_event (Mined tx_hashes) w))"

definition ganache_utils :: "(ganache, failure) deployutils" where
  "ganache_utils =
     \<lparr>MASTER = ''0xM'', UNIT = 1000000000000000000, emit = g_emit, attach = InStep,
      report_done = g_emit ''Done!'', compile_contracts = g_compile_contracts,
      attempt_deploy = g_attempt_deploy, transact = g_transact, mine_txs = g_mine_txs\<rparr>"

text \<open>
  Modelled from the spec: the same helpers over a backend that reports a rejected
  deployment in the receipt instead of raising (section 3 of the specification: the
  receipt records success or failure). The constructor named in \<open>reverting\<close> is mined
  into a receipt whose \<open>status\<close> is \<open>False\<close>.
\<close>

definition g_attempt_deploy_reporting ::
  "compiled \<Rightarrow> string \<Rightarrow> address \<Rightarrow> arg list \<Rightarrow> ganache \<Rightarrow>
     (failure + contract \<times> receipt) \<times> ganache"
where
  "g_attempt_deploy_reporting compiled name sender args w =
     (case fresh w of
        [] \<Rightarrow> (Inl BackendTimeout, w)
      | a # rest \<Rightarrow>
          (Inr (\<lparr>artifact = name, address = a\<rparr>,
                \<lparr>status = name \<notin> set (reverting w), gasUsed = 53000 + length args\<rparr>),
           log_event (Deployed name a args sender) (w\<lparr>fresh := rest\<rparr>)))"

definition reporting_utils :: "(ganache, failure) deployutils" where
  "reporting_utils = ganache_utils\<lparr>attempt_deploy := g_attempt_deploy_reporting\<rparr>"

definition world0 :: "address list \<Rightarrow> string list \<Rightarrow> ganache" where
  "world0 addrs rejected =
     \<lparr>stdout = [], events = [], fresh = addrs, reverting = rejected, stalled = False\<rparr>"

subsection \<open>Python values and exceptions\<close>

text \<open>
  The data that test settings and exception arguments hold. A dictionary is an
  association list; its keys are distinct in Python.
\<close>

datatype pyval = PNone | PBool bool | PInt int | PStr string
  | PList "pyval list" | PDict "(pyval \<times> pyval) list"

text \<open>Truth value testing, as the \<^verbatim>\<open>if\<close> statement applies it.\<close>

fun truthy :: "pyval \<Rightarrow> bool" where
  "truthy PNone = False"
| "truthy (PBool b) = b"
| "truthy (PInt n) = (n \<noteq> 0)"
| "truthy (PStr s) = (s \<noteq> [])"
| "truthy (PList xs) = (xs \<noteq> [])"
| "truthy (PDict kvs) = (kvs \<noteq> [])"

text \<open>
  Exception classes. \<open>ValueErrorSubclass\<close> stands for any class derived from
  \<^verbatim>\<open>ValueError\<close>, \<open>Timeout\<close> for the backend adapter giving up on a receipt.
\<close>

datatype exc_class = ValueError | ValueErrorSubclass string | TypeError | KeyError
  | IndexError | AttributeError | AssertionError | Timeout | Exception
  | InvalidSnapshotError

datatype exn = Exn exc_class "pyval list"

fun isinstance_ValueError :: "exn \<Rightarrow> bool" where
  "isinstance_ValueError (Exn ValueError args) = True"
| "isinstance_ValueError (Exn (ValueErrorSubclass c) args) = True"
| "isinstance_ValueError (Exn c args) = False"

text \<open>\<^verbatim>\<open>needle in haystack\<close> on strings: a contiguous occurrence.\<close>

fun is_prefix :: "'a list \<Rightarrow> 'a list \<Rightarrow> bool" where
  "is_prefix [] ys = True"
| "is_prefix (x # xs) [] = False"
| "is_prefix (x # xs) (y # ys) = (x = y \<and> is_prefix xs ys)"

fun str_contains :: "string \<Rightarrow> string \<Rightarrow> bool" where
  "str_contains needle [] = (needle = [])"
| "str_contains needle (c # cs) = (is_prefix needle (c # cs) \<or> str_contains needle cs)"

text \<open>\<^verbatim>\<open>exception.args[0]\<close>: an empty argument tuple raises.\<close>

fun args0 :: "exn \<Rightarrow> exn + pyval" where
  "args0 (Exn c []) = Inl (Exn IndexError [PStr ''tuple index out of range''])"
| "args0 (Exn c (a # as)) = Inr a"

text \<open>\<^verbatim>\<open>x[key]\<close> for a string key: only a dictionary that has the key answers.\<close>

fun getitem :: "pyval \<Rightarrow> string \<Rightarrow> exn + pyval" where
  "getitem (PDict kvs) key =
     (case map_of kvs (PStr key) of
        None \<Rightarrow> Inl (Exn KeyError [PStr key])
      | Some v \<Rightarrow> Inr v)"
| "getitem x key = Inl (Exn TypeError [])"

text \<open>
  \<^verbatim>\<open>needle in x\<close> for a string needle: substring of a string, element of a list,
  key of a dictionary; the other values are not iterable.
\<close>

fun py_in :: "string \<Rightarrow> pyval \<Rightarrow> exn + bool" where
  "py_in needle (PStr s) = Inr (str_contains needle s)"
| "py_in needle (PList xs) = Inr (PStr needle \<in> set xs)"
| "py_in needle (PDict kvs) = Inr (PStr needle \<in> set (map fst kvs))"
| "py_in needle x = Inl (Exn TypeError [])"

text \<open>\<^verbatim>\<open>n == x\<close> for an integer \<open>n\<close>; a Boolean compares as 0 or 1.\<close>

fun int_eq :: "int \<Rightarrow> pyval \<Rightarrow> bool" where
  "int_eq n (PInt m) = (n = m)"
| "int_eq n (PBool b) = (n = (if b then 1 else 0))"
| "int_eq n x = False"

subsection \<open>Assertions of \<^verbatim>\<open>unittest.TestCase\<close>\<close>

text \<open>
  \<^verbatim>\<open>with testcase.assertRaises(ValueError) as error\<close>, applied to the outcome of
  its body: a body that returns fails the assertion, an instance of
  \<^verbatim>\<open>ValueError\<close> is caught and bound, any other exception passes through.
\<close>

definition assertRaises_ValueError :: "exn + 'a \<Rightarrow> exn + exn" where
  "assertRaises_ValueError outcome =
     (case outcome of
        Inr v \<Rightarrow> Inl (Exn AssertionError [PStr ''ValueError not raised''])
      | Inl e \<Rightarrow> (if isinstance_ValueError e then Inr e else Inl e))"

definition assertTrue :: "bool \<Rightarrow> exn + unit" where
  "assertTrue expr =
     (if expr then Inr () else Inl (Exn AssertionError [PStr ''False is not true'']))"

definition assertEqual_int :: "int \<Rightarrow> pyval \<Rightarrow> exn + unit" where
  "assertEqual_int first second =
     (if int_eq first second then Inr () else Inl (Exn AssertionError [PInt first, second]))"

subsection \<open>\<^verbatim>\<open>tests/test_utils.py\<close>\<close>

text \<open>
  The web3 operations the harness and the facade use are parameters: \<open>fn_call\<close>
  is \<^verbatim>\<open>function.call()\<close>, \<open>fn_transact\<close> is
  \<^verbatim>\<open>function.transact(params)\<close>, and \<open>mine_tx\<close> is the missing helper, given
  the transaction hash and the further positional arguments of the call.
\<close>

record tx_params =
  tx_from :: arg
  tx_gas :: "nat option"

datatype attr = AStr string | AContract contract | AView string nat
  | AMutator string nat string

record 'w web3 =
  fn_call :: "invocation \<Rightarrow> 'w \<Rightarrow> (exn + pyval) \<times> 'w"
  fn_transact :: "invocation \<Rightarrow> tx_params \<Rightarrow> 'w \<Rightarrow> (exn + txhash) \<times> 'w"
  mine_tx :: "txhash \<Rightarrow> attr list \<Rightarrow> 'w \<Rightarrow> (exn + receipt) \<times> 'w"

text \<open>Lines 7 and 8, and again lines 13 and 14: the two checks on the caught error.\<close>

definition revert_checks :: "exn \<Rightarrow> exn + unit" where
  "revert_checks error =
     (case args0 error of Inl e \<Rightarrow> Inl e | Inr a \<Rightarrow>
     (case getitem a ''message'' of Inl e \<Rightarrow> Inl e | Inr message \<Rightarrow>
     (case py_in ''revert'' message of Inl e \<Rightarrow> Inl e | Inr found \<Rightarrow>
     (case assertTrue found of Inl e \<Rightarrow> Inl e | Inr u \<Rightarrow>
     (case getitem a ''code'' of Inl e \<Rightarrow> Inl e | Inr code \<Rightarrow>
        assertEqual_int (- 32000) code)))))"

definition assertCallReverts :: "'w web3 \<Rightarrow> invocation \<Rightarrow> 'w \<Rightarrow> (exn + unit) \<times> 'w" where
  "assertCallReverts W function w =
     (case fn_call W function w of
        (outcome, w') \<Rightarrow>
          (case assertRaises_ValueError outcome of
             Inl e \<Rightarrow> (Inl e, w')
           | Inr error \<Rightarrow> (revert_checks error, w')))"

text \<open>
  The body of the \<^verbatim>\<open>with\<close> block of line 12:
  \<^verbatim>\<open>mine_tx(function.transact(params))\<close>, the submission first.
\<close>

definition mine_transact ::
  "'w web3 \<Rightarrow> invocation \<Rightarrow> tx_params \<Rightarrow> 'w \<Rightarrow> (exn + receipt) \<times> 'w"
where
  "mine_transact W function params w =
     (case fn_transact W function params w of
        (Inl e, w1) \<Rightarrow> (Inl e, w1)
      | (Inr tx, w1) \<Rightarrow> mine_tx W tx [] w1)"

definition default_gas :: nat where
  "default_gas = 5000000"

definition assertTransactionReverts ::
  "'w web3 \<Rightarrow> invocation \<Rightarrow> arg \<Rightarrow> nat \<Rightarrow> 'w \<Rightarrow> (exn + unit) \<times> 'w"
where
  "assertTransactionReverts W function caller gas w =
     (case mine_transact W function \<lparr>tx_from = caller, tx_gas = Some gas\<rparr> w of
        (outcome, w') \<Rightarrow>
          (case assertRaises_ValueError outcome of
             Inl e \<Rightarrow> (Inl e, w')
           | Inr error \<Rightarrow> (revert_checks error, w')))"

subsection \<open>The facade \<^verbatim>\<open>ExternStateFeeTokenInterface\<close>\<close>

text \<open>
  An instance is its attribute dictionary. An attribute holds a string, the contract
  object, or one of the two shapes of closure the constructor builds:
  \<open>AView f n\<close> is
  \<^verbatim>\<open>lambda a1..an: self.contract.functions.f(a1..an).call()\<close> and
  \<open>AMutator f n l\<close> is
  \<^verbatim>\<open>lambda sender, a1..an: mine_tx(self.contract.functions.f(a1..an).transact({'from': sender}), l, self.name)\<close>.
  Both read \<^verbatim>\<open>self.contract\<close> and \<^verbatim>\<open>self.name\<close> when they are called, not
  when they are built.
\<close>

type_synonym instance_dict = "string \<rightharpoonup> attr"

text \<open>
  \<^verbatim>\<open>__init__\<close>, lines 7 to 49. The constructors of the two base classes are not
  among the sources; \<open>base\<close> is the dictionary they leave. The assignments follow
  in the order of the source, a later one replacing an earlier one of the same name.
\<close>

definition ExternStateFeeTokenInterface_init ::
  "instance_dict \<Rightarrow> contract \<Rightarrow> string \<Rightarrow> instance_dict"
where
  "ExternStateFeeTokenInterface_init base contract name = base
     (''contract'' \<mapsto> AContract contract,
      ''name'' \<mapsto> AStr name,
      ''owner'' \<mapsto> AView ''owner'' 0,
      ''totalSupply'' \<mapsto> AView ''totalSupply'' 0,
      ''state'' \<mapsto> AView ''state'' 0,
      ''name'' \<mapsto> AView ''name'' 0,
      ''symbol'' \<mapsto> AView ''symbol'' 0,
      ''balanceOf'' \<mapsto> AView ''balanceOf'' 1,
      ''allowance'' \<mapsto> AView ''allowance'' 2,
      ''transferFeeRate'' \<mapsto> AView ''transferFeeRate'' 0,
      ''feePool'' \<mapsto> AView ''feePool'' 0,
      ''feeAuthority'' \<mapsto> AView ''feeAuthority'' 0,
      ''transferFeeIncurred'' \<mapsto> AView ''transferFeeIncurred'' 1,
      ''transferPlusFee'' \<mapsto> AView ''transferPlusFee'' 1,
      ''priceToSpend'' \<mapsto> AView ''priceToSpend'' 1,
      ''nominateOwner'' \<mapsto> AMutator ''nominateOwner'' 1 ''nominateOwner'',
      ''acceptOwnership'' \<mapsto> AMutator ''acceptOwnership'' 0 ''acceptOwnership'',
      ''setTransferFeeRate'' \<mapsto> AMutator ''setTransferFeeRate'' 1 ''setTransferFeeRate'',
      ''setFeeAuthority'' \<mapsto> AMutator ''setFeeAuthority'' 1 ''setFeeAuthority'',
      ''setState'' \<mapsto> AMutator ''setState'' 1 ''setState'',
      ''transfer'' \<mapsto> AMutator ''transfer'' 2 ''transfer'',
      ''approve'' \<mapsto> AMutator ''approve'' 2 ''approve'',
      ''transferFrom'' \<mapsto> AMutator ''transferFrom'' 3 ''transferFrom'',
      ''withdrawFee'' \<mapsto> AMutator ''withdrawFee'' 2 ''withdrawFee'',
      ''donateToFeePool'' \<mapsto> AMutator ''donateToFeePool'' 1 ''donateToFeePool'')"

text \<open>The names of the read-only and of the mutating operations, lines 14 to 49.\<close>

definition view_operations :: "(string \<times> nat) list" where
  "view_operations =
     [(''owner'', 0), (''totalSupply'', 0), (''state'', 0), (''name'', 0), (''symbol'', 0),
      (''balanceOf'', 1), (''allowance'', 2), (''transferFeeRate'', 0), (''feePool'', 0),
      (''feeAuthority'', 0), (''transferFeeIncurred'', 1), (''transferPlusFee'', 1),
      (''priceToSpend'', 1)]"

definition mutating_operations :: "(string \<times> nat) list" where
  "mutating_operations =
     [(''nominateOwner'', 1), (''acceptOwnership'', 0), (''setTransferFeeRate'', 1),
      (''setFeeAuthority'', 1), (''setState'', 1), (''transfer'', 2), (''approve'', 2),
      (''transferFrom'', 3), (''withdrawFee'', 2), (''donateToFeePool'', 1)]"

text \<open>What a call of the facade gives back: a decoded value or a receipt.\<close>

datatype ret = Decoded pyval | Receipt receipt

text \<open>\<^verbatim>\<open>self.contract.functions.f(args)\<close>, read when a closure runs.\<close>

definition prepared :: "instance_dict \<Rightarrow> string \<Rightarrow> arg list \<Rightarrow> exn + invocation" where
  "prepared self f args =
     (case self ''contract'' of
        Some (AContract c) \<Rightarrow> Inr \<lparr>target = address c, fname = f, fargs = args\<rparr>
      | _ \<Rightarrow> Inl (Exn AttributeError [PStr ''functions'']))"

text \<open>
  \<^verbatim>\<open>instance.op(args)\<close>: attribute lookup, then the call. A string or a contract is
  not callable; a closure called with the wrong number of arguments raises
  \<^verbatim>\<open>TypeError\<close> before its body runs. In a mutator, Python evaluates the
  \<^verbatim>\<open>transact\<close> call, then the label, then \<^verbatim>\<open>self.name\<close>, then enters
  \<^verbatim>\<open>mine_tx\<close>.
\<close>

definition call_attr ::
  "'w web3 \<Rightarrow> instance_dict \<Rightarrow> string \<Rightarrow> arg list \<Rightarrow> 'w \<Rightarrow> (exn + ret) \<times> 'w"
where
  "call_attr W self op args w =
     (case self op of
        None \<Rightarrow> (Inl (Exn AttributeError [PStr op]), w)
      | Some (AStr s) \<Rightarrow> (Inl (Exn TypeError [PStr ''not callable'']), w)
      | Some (AContract c) \<Rightarrow> (Inl (Exn TypeError [PStr ''not callable'']), w)
      | Some (AView f n) \<Rightarrow>
          (if length args \<noteq> n then (Inl (Exn TypeError [PStr ''arguments'']), w)
           else (case prepared self f args of
                   Inl e \<Rightarrow> (Inl e, w)
                 | Inr function \<Rightarrow>
                     (case fn_call W function w of
                        (Inl e, w1) \<Rightarrow> (Inl e, w1)
                      | (Inr v, w1) \<Rightarrow> (Inr (Decoded v), w1))))
      | Some (AMutator f n label) \<Rightarrow>
          (case args of
             [] \<Rightarrow> (Inl (Exn TypeError [PStr ''arguments'']), w)
           | sender # rest \<Rightarrow>
               (if length rest \<noteq> n then (Inl (Exn TypeError [PStr ''arguments'']), w)
                else (case prepared self f rest of
                        Inl e \<Rightarrow> (Inl e, w)
                      | Inr function \<Rightarrow>
                          (case fn_transact W function
                                  \<lparr>tx_from = sender, tx_gas = None\<rparr> w of
                             (Inl e, w1) \<Rightarrow> (Inl e, w1)
                           | (Inr tx, w1) \<Rightarrow>
                               (case self ''name'' of
                                  None \<Rightarrow> (Inl (Exn AttributeError [PStr ''name'']), w1)
                                | Some name_attr \<Rightarrow>
                                    (case mine_tx W tx [AStr label, name_attr] w1 of
                                       (Inl e, w2) \<Rightarrow> (Inl e, w2)
                                     | (Inr r, w2) \<Rightarrow> (Inr (Receipt r), w2))))))))"

subsection \<open>Test classes: set-up and tear-down\<close>

text \<open>
  \<^verbatim>\<open>take_snapshot\<close> and \<^verbatim>\<open>restore_snapshot\<close> of
  \<^verbatim>\<open>utils.deployutils\<close> are parameters.
\<close>

type_synonym handle = nat

record 'w snapshot_ops =
  take_snapshot :: "'w \<Rightarrow> (exn + handle) \<times> 'w"
  restore_snapshot :: "handle \<Rightarrow> 'w \<Rightarrow> (exn + unit) \<times> 'w"

datatype test_class = TestTokenState | TestERC20FeeToken | TestOwned

text \<open>
  \<^verbatim>\<open>setUp\<close> returns the value of the instance attribute \<^verbatim>\<open>snapshot\<close> it leaves.
  \<^verbatim>\<open>TestTokenState\<close> defines both methods (lines 27 to 31 of
  \<^verbatim>\<open>test_TokenState.py\<close>), whatever its base class
  \<^verbatim>\<open>HavvenTestCase\<close> does; \<^verbatim>\<open>TestERC20FeeToken\<close> and
  \<^verbatim>\<open>TestOwned\<close> derive from \<^verbatim>\<open>unittest.TestCase\<close>, define neither and
  inherit its empty methods.
\<close>

fun setUp :: "'w snapshot_ops \<Rightarrow> test_class \<Rightarrow> 'w \<Rightarrow> (exn + handle option) \<times> 'w" where
  "setUp S TestTokenState w =
     (case take_snapshot S w of
        (Inl e, w') \<Rightarrow> (Inl e, w')
      | (Inr h, w') \<Rightarrow> (Inr (Some h), w'))"
| "setUp S TestERC20FeeToken w = (Inr None, w)"
| "setUp S TestOwned w = (Inr None, w)"

fun tearDown ::
  "'w snapshot_ops \<Rightarrow> test_class \<Rightarrow> handle option \<Rightarrow> 'w \<Rightarrow> (exn + unit) \<times> 'w"
where
  "tearDown S TestTokenState (Some h) w = restore_snapshot S h w"
| "tearDown S TestTokenState None w = (Inl (Exn AttributeError [PStr ''snapshot'']), w)"
| "tearDown S TestERC20FeeToken snapshot w = (Inr (), w)"
| "tearDown S TestOwned snapshot w = (Inr (), w)"

text \<open>
  \<^verbatim>\<open>unittest.TestCase.run\<close> for one test method: when \<^verbatim>\<open>setUp\<close> raises, the
  error is recorded and neither the body nor \<^verbatim>\<open>tearDown\<close> runs; otherwise the body
  runs, its exception if any is recorded, and \<^verbatim>\<open>tearDown\<close> runs in either case.
  The result is the list of recorded exceptions.
\<close>

definition recorded :: "exn + 'a \<Rightarrow> exn list" where
  "recorded outcome = (case outcome of Inl e \<Rightarrow> [e] | Inr v \<Rightarrow> [])"

definition run_test ::
  "'w snapshot_ops \<Rightarrow> test_class \<Rightarrow> ('w \<Rightarrow> (exn + unit) \<times> 'w) \<Rightarrow> 'w \<Rightarrow> exn list \<times> 'w"
where
  "run_test S cls body w =
     (case setUp S cls w of
        (Inl e, w1) \<Rightarrow> ([e], w1)
      | (Inr snapshot, w1) \<Rightarrow>
          (case body w1 of
             (outcome, w2) \<Rightarrow>
               (case tearDown S cls snapshot w2 of
                  (cleanup, w3) \<Rightarrow> (recorded outcome @ recorded cleanup, w3))))"

text \<open>Test units run one after the other on the same backend.\<close>

fun run_tests_in_order ::
  "'w snapshot_ops \<Rightarrow> (test_class \<times> ('w \<Rightarrow> (exn + unit) \<times> 'w)) list \<Rightarrow> 'w \<Rightarrow>
     exn list \<times> 'w"
where
  "run_tests_in_order S [] w = ([], w)"
| "run_tests_in_order S ((cls, body) # units) w =
     (case run_test S cls body w of
        (problems, w1) \<Rightarrow>
          (case run_tests_in_order S units w1 of
             (later, w2) \<Rightarrow> (problems @ later, w2)))"

subsection \<open>\<^verbatim>\<open>run_tests.py\<close>\<close>

text \<open>
  \<^verbatim>\<open>unittest.TestResult\<close>, as far as \<^verbatim>\<open>wasSuccessful\<close> reads it.
\<close>

record test_result =
  failures :: "string list"
  errors :: "string list"
  unexpectedSuccesses :: "string list"

definition wasSuccessful :: "test_result \<Rightarrow> bool" where
  "wasSuccessful result =
     (length (failures result) = 0 \<and> length (errors result) = 0 \<and>
      length (unexpectedSuccesses result) = 0)"

text \<open>
  What the script takes from outside: the process launcher, the clock, the terminal,
  \<^verbatim>\<open>utils.generalutils\<close> (missing from the sources), the package \<^verbatim>\<open>tests\<close>
  with its modules \<open>'m\<close>, and unittest's loader and runner over tests \<open>'t\<close>.
  \<open>out\<close> writes a text to the terminal as it is: the line end that
  \<^verbatim>\<open>print\<close> appends is written out in the model.
\<close>

record ('w, 'm, 't) runner =
  ganache_error_message :: string
  Popen :: "string list \<Rightarrow> 'w \<Rightarrow> (exn + unit) \<times> 'w"
  sleep :: "nat \<Rightarrow> 'w \<Rightarrow> 'w"
  out :: "string \<Rightarrow> 'w \<Rightarrow> 'w"
  load_test_settings :: "'w \<Rightarrow> (exn + (string \<times> pyval) list) \<times> 'w"
  tests_getattr :: "string \<Rightarrow> exn + 'm"
  loadTestsFromModule :: "'m \<Rightarrow> 't list"
  run_suite :: "'t list \<Rightarrow> 'w \<Rightarrow> (exn + test_result) \<times> 'w"
  terminate :: "'w \<Rightarrow> 'w"

text \<open>
  Lines 29 to 31: the loop over the keys of the settings, the suite threaded through.
  \<^verbatim>\<open>test_settings[item]\<close> is a dictionary lookup; \<^verbatim>\<open>getattr(tests, item)\<close>
  raises for a name the package does not have.
\<close>

fun add_enabled ::
  "('w, 'm, 't) runner \<Rightarrow> (string \<times> pyval) list \<Rightarrow> string list \<Rightarrow> 't list \<Rightarrow> exn + 't list"
where
  "add_enabled R test_settings [] test_suite = Inr test_suite"
| "add_enabled R test_settings (item # items) test_suite =
     (case map_of test_settings item of
        None \<Rightarrow> Inl (Exn KeyError [PStr item])
      | Some entry \<Rightarrow>
          (if truthy entry
           then (case tests_getattr R item of
                   Inl e \<Rightarrow> Inl e
                 | Inr m \<Rightarrow>
                     add_enabled R test_settings items (test_suite @ loadTestsFromModule R m))
           else add_enabled R test_settings items test_suite))"

text \<open>
  How the process ends: \<^verbatim>\<open>sys.exit(n)\<close>, or an exception nobody caught, for which
  the interpreter prints the traceback and exits with status 1.
\<close>

datatype ending = SystemExit int | Uncaught exn

fun exit_status :: "ending \<Rightarrow> int" where
  "exit_status (SystemExit n) = n"
| "exit_status (Uncaught e) = 1"

definition num_agents :: string where
  "num_agents = ''120''"

definition eth_per_agent :: string where
  "eth_per_agent = ''1000000000000''"

definition command :: "string list" where
  "command = [''ganache-cli'', ''-a'', num_agents, ''-e'', eth_per_agent]"

text \<open>Lines 25 to 31: settings and suite.\<close>

definition assemble_suite :: "('w, 'm, 't) runner \<Rightarrow> 'w \<Rightarrow> (exn + 't list) \<times> 'w" where
  "assemble_suite R w =
     (case load_test_settings R w of
        (Inl e, w1) \<Rightarrow> (Inl e, w1)
      | (Inr test_settings, w1) \<Rightarrow>
          (add_enabled R test_settings (map fst test_settings) [], w1))"

text \<open>The main block, lines 10 to 38.\<close>

definition run_tests_main :: "('w, 'm, 't) runner \<Rightarrow> 'w \<Rightarrow> ending \<times> 'w" where
  "run_tests_main R w =
     (case Popen R command (out R ''Launching ganache...'' w) of
        (Inl e, w1) \<Rightarrow> (Uncaught (Exn Exception [PStr (ganache_error_message R)]), w1)
      | (Inr process, w1) \<Rightarrow>
     (case assemble_suite R (out R (''Done.'' @ NL) (sleep R 5 w1)) of
        (Inl e, w2) \<Rightarrow> (Uncaught e, w2)
      | (Inr test_suite, w2) \<Rightarrow>
     (case run_suite R test_suite (out R (''Running test suite...'' @ NL @ NL) w2) of
        (Inl e, w3) \<Rightarrow> (Uncaught e, w3)
      | (Inr result, w3) \<Rightarrow>
          (SystemExit (if wasSuccessful result then 0 else 1),
           out R (NL @ ''Testing complete.'' @ NL) (terminate R w3)))))"

subsection \<open>A reference node for the harness\<close>

text \<open>
  Modelled from the spec: one deployed fee token on a backend with checkpoint and restore
  (section 6 of the specification). A call or a transaction the contract rejects raises
  \<^verbatim>\<open>ValueError\<close> with the backend's rejection signal; \<^verbatim>\<open>checkpoint\<close> saves the
  contract state under a fresh handle, \<^verbatim>\<open>restore\<close> puts the state of a known handle
  back and consumes the handle. It serves to run the harness on concrete inputs.
\<close>

datatype journal_entry = Called invocation | Sent txhash invocation tx_params
  | MinedTx txhash "attr list" | Checkpoint handle | Restored handle

record node =
  token_owner :: address
  fee_rate :: int
  saved :: "(handle \<times> address \<times> int) list"
  next_handle :: handle
  journal :: "journal_entry list"

definition revert_error :: exn where
  "revert_error =
     Exn ValueError
       [PDict [(PStr ''message'', PStr ''VM Exception while processing transaction: revert''),
               (PStr ''code'', PInt (- 32000))]]"

definition note_entry :: "journal_entry \<Rightarrow> node \<Rightarrow> node" where
  "note_entry entry w = w\<lparr>journal := journal w @ [entry]\<rparr>"

definition node_call :: "invocation \<Rightarrow> node \<Rightarrow> (exn + pyval) \<times> node" where
  "node_call function w =
     ((if fname function = ''owner'' then Inr (PStr (token_owner w))
       else if fname function = ''transferFeeRate'' then Inr (PInt (fee_rate w))
       else if fname function = ''name'' then Inr (PStr ''Test Fee Token'')
       else Inl revert_error),
      note_entry (Called function) w)"

definition node_transact ::
  "invocation \<Rightarrow> tx_params \<Rightarrow> node \<Rightarrow> (exn + txhash) \<times> node"
where
  "node_transact function params w =
     (if fname function = ''setTransferFeeRate''
      then (case fargs function of
              [Num r] \<Rightarrow>
                (if tx_from params = Addr (token_owner w)
                 then (Inr (length (journal w)),
                       note_entry (Sent (length (journal w)) function params)
                         (w\<lparr>fee_rate := r\<rparr>))
                 else (Inl revert_error, w))
            | _ \<Rightarrow> (Inl revert_error, w))
      else (Inl revert_error, w))"

definition node_mine_tx :: "txhash \<Rightarrow> attr list \<Rightarrow> node \<Rightarrow> (exn + receipt) \<times> node" where
  "node_mine_tx tx extra w =
     (if tx < length (journal w)
      then (Inr \<lparr>status = True, gasUsed = 21000\<rparr>, note_entry (MinedTx tx extra) w)
      else (Inl (Exn Timeout []), w))"

definition node_web3 :: "node web3" where
  "node_web3 = \<lparr>fn_call = node_call, fn_transact = node_transact, mine_tx = node_mine_tx\<rparr>"

definition node_take_snapshot :: "node \<Rightarrow> (exn + handle) \<times> node" where
  "node_take_snapshot w =
     (Inr (next_handle w),
      note_entry (Checkpoint (next_handle w))
        (w\<lparr>saved := (next_handle w, token_owner w, fee_rate w) # saved w,
           next_handle := Suc (next_handle w)\<rparr>))"

definition node_restore_snapshot :: "handle \<Rightarrow> node \<Rightarrow> (exn + unit) \<times> node" where
  "node_restore_snapshot h w =
     (case map_of (saved w) h of
        None \<Rightarrow> (Inl (Exn InvalidSnapshotError []), w)
      | Some (holder, rate) \<Rightarrow>
          (Inr (),
           note_entry (Restored h)
             (w\<lparr>token_owner := holder, fee_rate := rate,
                saved := filter (\<lambda>kv. fst kv \<noteq> h) (saved w)\<rparr>)))"

definition node_snapshots :: "node snapshot_ops" where
  "node_snapshots =
     \<lparr>take_snapshot = node_take_snapshot, restore_snapshot = node_restore_snapshot\<rparr>"

definition node0 :: node where
  "node0 = \<lparr>token_owner = ''0xM'', fee_rate = 5, saved = [], next_handle = 0, journal = []\<rparr>"

text \<open>
  Two test bodies for the reference node: the first sets the fee rate to 7 as the owner,
  the second expects the rate the node started with.
\<close>

definition setTransferFeeRate :: "int \<Rightarrow> invocation" where
  "setTransferFeeRate r =
     \<lparr>target = ''0xT'', fname = ''setTransferFeeRate'', fargs = [Num r]\<rparr>"

definition transferFeeRate :: invocation where
  "transferFeeRate = \<lparr>target = ''0xT'', fname = ''transferFeeRate'', fargs = []\<rparr>"

definition body_sets_rate :: "node \<Rightarrow> (exn + unit) \<times> node" where
  "body_sets_rate w =
     (case mine_transact node_web3 (setTransferFeeRate 7)
             \<lparr>tx_from = Addr ''0xM'', tx_gas = None\<rparr> w of
        (Inl e, w1) \<Rightarrow> (Inl e, w1)
      | (Inr r, w1) \<Rightarrow> (Inr (), w1))"

definition body_expects_rate :: "node \<Rightarrow> (exn + unit) \<times> node" where
  "body_expects_rate w =
     (case fn_call node_web3 transferFeeRate w of
        (Inl e, w1) \<Rightarrow> (Inl e, w1)
      | (Inr v, w1) \<Rightarrow> (assertEqual_int 5 v, w1))"

text \<open>A runner for concrete runs of the main block: three modules, a fixed result.\<close>

definition tests_package :: "string \<Rightarrow> exn + string list" where
  "tests_package item =
     (if item = ''test_Owned''
        then Inr [''test_owner_is_master'', ''test_change_owner'', ''test_change_invalid_owner'']
      else if item = ''test_TokenState''
        then Inr [''test_constructor'', ''test_setAssociatedContract'', ''test_setAllowance'',
                  ''test_setBalanceOf'']
      else if item = ''test_ERC20FeeToken'' then Inr [''test_constructor'']
      else Inl (Exn AttributeError [PStr item]))"

definition demo_runner ::
  "(string \<times> pyval) list \<Rightarrow> string list \<Rightarrow> (string list, string list, string) runner"
where
  "demo_runner settings failing =
     \<lparr>ganache_error_message = ''ganache-cli not found'',
      Popen = (\<lambda>cmd w. (Inr (), w)),
      sleep = (\<lambda>n w. w),
      out = (\<lambda>s w. w @ [s]),
      load_test_settings = (\<lambda>w. (Inr settings, w)),
      tests_getattr = tests_package,
      loadTestsFromModule = (\<lambda>m. m),
      run_suite = (\<lambda>suite w.
         (Inr \<lparr>failures = filter (\<lambda>t. t \<in> set failing) suite, errors = [],
               unexpectedSuccesses = []\<rparr>, w)),
      terminate = (\<lambda>w. w)\<rparr>"

section \<open>Properties\<close>

subsection \<open>Unfolding rules\<close>

lemmas deploy_defs = deploy_havven_def deploy_contracts_def link_contracts_def attempt_def
  print_address_lines_def havven_args_def nomin_args_def court_args_def escrow_args_def
  setNomin_def setEscrow_def setCourt_def OWNER_def ORACLE_def LIQUIDATION_BENEFICIARY_def
  INITIAL_ETH_PRICE_def SOLIDITY_SOURCES_def NL_def

lemmas ganache_defs = ganache_utils_def g_emit_def g_compile_contracts_def
  g_attempt_deploy_def g_transact_def g_mine_txs_def g_receipt_def log_event_def world0_def
  reporting_utils_def g_attempt_deploy_reporting_def

subsection \<open>Order of the deployment steps\<close>

text \<open>
  Claim C6. Whatever the helpers do, in a run whose four deployments return, each call of
  \<^verbatim>\<open>attempt_deploy\<close> acts on the world left by the call before it, in the order
  Havven, EtherNomin, Court, HavvenEscrow, and the constructor arguments that refer to an
  earlier contract hold the address of the instance that this earlier call returned: the
  instance exists, with its address, before the later step runs.
\<close>

theorem deployment_steps_in_order:
  assumes "deploy_contracts U compiled w =
             (Inr ((h, hr), (n, nr), (c, cr), (e, er)), w')"
  shows "\<exists>w1 w2 w3.
           attempt_deploy U compiled ''Havven'' (MASTER U) [Addr (OWNER U)] w
             = (Inr (h, hr), w1) \<and>
           attempt_deploy U compiled ''EtherNomin'' (MASTER U)
               [Addr (address h), Addr (ORACLE U), Addr (LIQUIDATION_BENEFICIARY U),
                Num (INITIAL_ETH_PRICE U), Addr (OWNER U)] w1
             = (Inr (n, nr), w2) \<and>
           attempt_deploy U compiled ''Court'' (MASTER U)
               [Addr (address h), Addr (address n), Addr (OWNER U)] w2
             = (Inr (c, cr), w3) \<and>
           attempt_deploy U compiled ''HavvenEscrow'' (MASTER U)
               [Addr (OWNER U), Addr (address h), Addr (address n)] w3
             = (Inr (e, er), w')"
  using assms
  unfolding deploy_contracts_def havven_args_def nomin_args_def court_args_def escrow_args_def
  by (auto split: prod.splits sum.splits)

theorem deployment_steps_in_order_witness:
  "\<exists>w1 w2 w3.
     attempt_deploy ganache_utils SOLIDITY_SOURCES ''Havven'' ''0xM'' [Addr ''0xM'']
         (world0 [''0x01'', ''0x02'', ''0x03'', ''0x04''] [])
       = (Inr (\<lparr>artifact = ''Havven'', address = ''0x01''\<rparr>,
               \<lparr>status = True, gasUsed = 53001\<rparr>), w1) \<and>
     attempt_deploy ganache_utils SOLIDITY_SOURCES ''EtherNomin'' ''0xM''
         [Addr ''0x01'', Addr ''0xM'', Addr ''0xM'', Num 1000000000000000000000, Addr ''0xM''] w1
       = (Inr (\<lparr>artifact = ''EtherNomin'', address = ''0x02''\<rparr>,
               \<lparr>status = True, gasUsed = 53005\<rparr>), w2) \<and>
     attempt_deploy ganache_utils SOLIDITY_SOURCES ''Court'' ''0xM''
         [Addr ''0x01'', Addr ''0x02'', Addr ''0xM''] w2
       = (Inr (\<lparr>artifact = ''Court'', address = ''0x03''\<rparr>,
               \<lparr>status = True, gasUsed = 53003\<rparr>), w3) \<and>
     attempt_deploy ganache_utils SOLIDITY_SOURCES ''HavvenEscrow'' ''0xM''
         [Addr ''0xM'', Addr ''0x01'', Addr ''0x02''] w3
       = (Inr (\<lparr>artifact = ''HavvenEscrow'', address = ''0x04''\<rparr>,
               \<lparr>status = True, gasUsed = 53003\<rparr>),
          \<lparr>stdout = [],
           events = [Deployed ''Havven'' ''0x01'' [Addr ''0xM''] ''0xM'',
                     Deployed ''EtherNomin'' ''0x02''
                       [Addr ''0x01'', Addr ''0xM'', Addr ''0xM'',
                        Num 1000000000000000000000, Addr ''0xM''] ''0xM'',
                     Deployed ''Court'' ''0x03''
                       [Addr ''0x01'', Addr ''0x02'', Addr ''0xM''] ''0xM'',
                     Deployed ''HavvenEscrow'' ''0x04''
                       [Addr ''0xM'', Addr ''0x01'', Addr ''0x02''] ''0xM''],
           fresh = [], reverting = [], stalled = False\<rparr>)"
proof -
  have run: "deploy_contracts ganache_utils SOLIDITY_SOURCES
               (world0 [''0x01'', ''0x02'', ''0x03'', ''0x04''] []) =
             (Inr ((\<lparr>artifact = ''Havven'', address = ''0x01''\<rparr>,
                    \<lparr>status = True, gasUsed = 53001\<rparr>),
                   (\<lparr>artifact = ''EtherNomin'', address = ''0x02''\<rparr>,
                    \<lparr>status = True, gasUsed = 53005\<rparr>),
                   (\<lparr>artifact = ''Court'', address = ''0x03''\<rparr>,
                    \<lparr>status = True, gasUsed = 53003\<rparr>),
                   (\<lparr>artifact = ''HavvenEscrow'', address = ''0x04''\<rparr>,
                    \<lparr>status = True, gasUsed = 53003\<rparr>)),
              \<lparr>stdout = [],
               events = [Deployed ''Havven'' ''0x01'' [Addr ''0xM''] ''0xM'',
                         Deployed ''EtherNomin'' ''0x02''
                           [Addr ''0x01'', Addr ''0xM'', Addr ''0xM'',
                            Num 1000000000000000000000, Addr ''0xM''] ''0xM'',
                         Deployed ''Court'' ''0x03''
                           [Addr ''0x01'', Addr ''0x02'', Addr ''0xM''] ''0xM'',
                         Deployed ''HavvenEscrow'' ''0x04''
                           [Addr ''0xM'', Addr ''0x01'', Addr ''0x02''] ''0xM''],
               fresh = [], reverting = [], stalled = False\<rparr>)"
    by (simp add: ganache_defs deploy_defs)
  show ?thesis
    using deployment_steps_in_order [OF run]
    by (simp add: ganache_utils_def OWNER_def ORACLE_def LIQUIDATION_BENEFICIARY_def
        INITIAL_ETH_PRICE_def)
qed

subsection \<open>A failing deployment step\<close>




subsection \<open>The value returned by a completed run\<close>

text \<open>
  Claim C1. A completed run deploys four artifacts. The returned tuple is the one of line
  51: the instances and receipts of Havven, EtherNomin and Court. The instance and the
  receipt of HavvenEscrow, deployed at \<open>0x04\<close> and listed by the printing branch of
  the same function, are not part of it.
\<close>

theorem deploy_havven_omits_escrow:
  "fst (deploy_havven ganache_utils True (world0 [''0x01'', ''0x02'', ''0x03'', ''0x04''] [])) =
     Inr (\<lparr>artifact = ''Havven'', address = ''0x01''\<rparr>,
          \<lparr>artifact = ''EtherNomin'', address = ''0x02''\<rparr>,
          \<lparr>artifact = ''Court'', address = ''0x03''\<rparr>,
          \<lparr>status = True, gasUsed = 53001\<rparr>, \<lparr>status = True, gasUsed = 53005\<rparr>,
          \<lparr>status = True, gasUsed = 53003\<rparr>) \<and>
   events (snd (deploy_havven ganache_utils True
                  (world0 [''0x01'', ''0x02'', ''0x03'', ''0x04''] []))) ! 4 =
     Deployed ''HavvenEscrow'' ''0x04'' [Addr ''0xM'', Addr ''0x01'', Addr ''0x02''] ''0xM'' \<and>
   stdout (snd (deploy_havven ganache_utils True
                  (world0 [''0x01'', ''0x02'', ''0x03'', ''0x04''] []))) ! 11 =
     ''Escrow: 0x04''"
  by (simp add: ganache_defs deploy_defs)

subsection \<open>The linking phase\<close>

text \<open>
  Claim C2, as amended. After compilation and deployment, when the three submissions
  return transaction hashes, they have run in the declared order, each on the world left
  by the one before, and only then is \<^verbatim>\<open>mine_txs\<close> entered, once, with the three
  hashes, under \<^verbatim>\<open>attempt\<close>. If that step raises, \<^verbatim>\<open>deploy_havven\<close> halts
  with its error, the step name attached; if it returns receipts, whatever their status,
  \<^verbatim>\<open>deploy_havven\<close> completes and returns the tuple of line 51.
\<close>

theorem link_receipts_awaited_together:
  assumes "attempt U (compile_contracts U) SOLIDITY_SOURCES ''Compiling contracts... ''
             (emit U (''Deployment initiated.'' @ NL) w) = (Inr compiled, w0)"
      and "deploy_contracts U compiled w0 = (Inr ((h, hr), (n, nr), (c, cr), (e, er)), w1)"
      and "transact U (setNomin h n) (MASTER U) w1 = (Inr t1, w2)"
      and "transact U (setEscrow h e) (MASTER U) w2 = (Inr t2, w3)"
      and "transact U (setCourt n c) (MASTER U) w3 = (Inr t3, w4)"
  shows "link_contracts U h n c e w1 =
           attempt U (mine_txs U) [t1, t2, t3] ''Linking contracts... '' w4 \<and>
         (\<forall>x w5. mine_txs U [t1, t2, t3] (emit U ''Linking contracts... '' w4) = (Inl x, w5)
            \<longrightarrow> deploy_havven U pa w = (Inl (attach U ''Linking contracts... '' x), w5)) \<and>
         (\<forall>rs w5. mine_txs U [t1, t2, t3] (emit U ''Linking contracts... '' w4) = (Inr rs, w5)
            \<longrightarrow> fst (deploy_havven U pa w) = Inr (h, n, c, hr, nr, cr))"
  using assms unfolding deploy_havven_def link_contracts_def attempt_def
  by (simp add: Let_def)

theorem link_receipts_awaited_together_witness:
  "fst (deploy_havven ganache_utils True
          (world0 [''0x01'', ''0x02'', ''0x03'', ''0x04''] [''setCourt''])) =
     Inr (\<lparr>artifact = ''Havven'', address = ''0x01''\<rparr>,
          \<lparr>artifact = ''EtherNomin'', address = ''0x02''\<rparr>,
          \<lparr>artifact = ''Court'', address = ''0x03''\<rparr>,
          \<lparr>status = True, gasUsed = 53001\<rparr>, \<lparr>status = True, gasUsed = 53005\<rparr>,
          \<lparr>status = True, gasUsed = 53003\<rparr>) \<and>
   fst (deploy_havven ganache_utils True
          ((world0 [''0x01'', ''0x02'', ''0x03'', ''0x04''] [''setCourt''])
             \<lparr>stalled := True\<rparr>)) =
     Inl (InStep ''Linking contracts... '' BackendTimeout)"
proof -
  let ?H = "\<lparr>artifact = ''Havven'', address = ''0x01''\<rparr>"
  let ?N = "\<lparr>artifact = ''EtherNomin'', address = ''0x02''\<rparr>"
  let ?C = "\<lparr>artifact = ''Court'', address = ''0x03''\<rparr>"
  let ?E = "\<lparr>artifact = ''HavvenEscrow'', address = ''0x04''\<rparr>"
  let ?evs = "[Compiled SOLIDITY_SOURCES,
               Deployed ''Havven'' ''0x01'' [Addr ''0xM''] ''0xM'',
               Deployed ''EtherNomin'' ''0x02''
                 [Addr ''0x01'', Addr ''0xM'', Addr ''0xM'',
                  Num 1000000000000000000000, Addr ''0xM''] ''0xM'',
               Deployed ''Court'' ''0x03'' [Addr ''0x01'', Addr ''0x02'', Addr ''0xM''] ''0xM'',
               Deployed ''HavvenEscrow'' ''0x04''
                 [Addr ''0xM'', Addr ''0x01'', Addr ''0x02''] ''0xM'']"
  let ?s1 = "Submitted 5 (setNomin ?H ?N) ''0xM''"
  let ?s2 = "Submitted 6 (setEscrow ?H ?E) ''0xM''"
  let ?s3 = "Submitted 7 (setCourt ?N ?C) ''0xM''"
  have steps:
    "attempt ganache_utils (compile_contracts ganache_utils) SOLIDITY_SOURCES
       ''Compiling contracts... ''
       (emit ganache_utils (''Deployment initiated.'' @ NL)
          ((world0 [''0x01'', ''0x02'', ''0x03'', ''0x04''] [''setCourt''])
             \<lparr>stalled := st\<rparr>)) =
     (Inr SOLIDITY_SOURCES, V\<lparr>events := [Compiled SOLIDITY_SOURCES]\<rparr>)"
    "deploy_contracts ganache_utils SOLIDITY_SOURCES (V\<lparr>events := [Compiled SOLIDITY_SOURCES]\<rparr>) =
     (Inr ((?H, \<lparr>status = True, gasUsed = 53001\<rparr>),
           (?N, \<lparr>status = True, gasUsed = 53005\<rparr>),
           (?C, \<lparr>status = True, gasUsed = 53003\<rparr>),
           (?E, \<lparr>status = True, gasUsed = 53003\<rparr>)),
      V\<lparr>events := ?evs, fresh := []\<rparr>)"
    "transact ganache_utils (setNomin ?H ?N) (MASTER ganache_utils)
       (V\<lparr>events := ?evs, fresh := []\<rparr>) =
     (Inr 5, V\<lparr>events := ?evs @ [?s1], fresh := []\<rparr>)"
    "transact ganache_utils (setEscrow ?H ?E) (MASTER ganache_utils)
       (V\<lparr>events := ?evs @ [?s1], fresh := []\<rparr>) =
     (Inr 6, V\<lparr>events := ?evs @ [?s1, ?s2], fresh := []\<rparr>)"
    "transact ganache_utils (setCourt ?N ?C) (MASTER ganache_utils)
       (V\<lparr>events := ?evs @ [?s1, ?s2], fresh := []\<rparr>) =
     (Inr 7, V\<lparr>events := ?evs @ [?s1, ?s2, ?s3], fresh := []\<rparr>)"
    if "V = \<lparr>stdout = [''Deployment initiated.'' @ NL, ''Compiling contracts... '', ''Done!''],
              events = [], fresh = [''0x01'', ''0x02'', ''0x03'', ''0x04''],
              reverting = [''setCourt''], stalled = st\<rparr>" for st V
    unfolding that by (simp_all add: ganache_defs deploy_defs)
  have returned:
    "mine_txs ganache_utils [5, 6, 7]
       (emit ganache_utils ''Linking contracts... ''
          (V\<lparr>events := ?evs @ [?s1, ?s2, ?s3], fresh := []\<rparr>)) =
     (Inr [\<lparr>status = True, gasUsed = 21000\<rparr>, \<lparr>status = True, gasUsed = 21000\<rparr>,
           \<lparr>status = False, gasUsed = 21000\<rparr>],
      V\<lparr>stdout := stdout V @ [''Linking contracts... ''],
        events := ?evs @ [?s1, ?s2, ?s3, Mined [5, 6, 7]], fresh := []\<rparr>)"
    if "V = \<lparr>stdout = [''Deployment initiated.'' @ NL, ''Compiling contracts... '', ''Done!''],
              events = [], fresh = [''0x01'', ''0x02'', ''0x03'', ''0x04''],
              reverting = [''setCourt''], stalled = False\<rparr>" for V
    unfolding that by (simp add: ganache_defs setNomin_def setEscrow_def setCourt_def)
  have raised:
    "mine_txs ganache_utils [5, 6, 7]
       (emit ganache_utils ''Linking contracts... ''
          (V\<lparr>events := ?evs @ [?s1, ?s2, ?s3], fresh := []\<rparr>)) =
     (Inl BackendTimeout,
      V\<lparr>stdout := stdout V @ [''Linking contracts... ''],
        events := ?evs @ [?s1, ?s2, ?s3, Mined [5, 6, 7]], fresh := []\<rparr>)"
    if "V = \<lparr>stdout = [''Deployment initiated.'' @ NL, ''Compiling contracts... '', ''Done!''],
              events = [], fresh = [''0x01'', ''0x02'', ''0x03'', ''0x04''],
              reverting = [''setCourt''], stalled = True\<rparr>" for V
    unfolding that by (simp add: ganache_defs)
  have a: "fst (deploy_havven ganache_utils True
                  ((world0 [''0x01'', ''0x02'', ''0x03'', ''0x04''] [''setCourt''])
                     \<lparr>stalled := False\<rparr>)) =
           Inr (?H, ?N, ?C, \<lparr>status = True, gasUsed = 53001\<rparr>,
                \<lparr>status = True, gasUsed = 53005\<rparr>, \<lparr>status = True, gasUsed = 53003\<rparr>)"
    using link_receipts_awaited_together [OF steps [where st = False, OF refl],
        where pa = True] returned [OF refl]
    by blast
  have b: "fst (deploy_havven ganache_utils True
                  ((world0 [''0x01'', ''0x02'', ''0x03'', ''0x04''] [''setCourt''])
                     \<lparr>stalled := True\<rparr>)) =
           Inl (attach ganache_utils ''Linking contracts... '' BackendTimeout)"
    using link_receipts_awaited_together [OF steps [where st = True, OF refl],
        where pa = True, THEN conjunct2, THEN conjunct1, rule_format, OF raised [OF refl]]
    by simp
  from a b show ?thesis by (simp add: world0_def ganache_utils_def)
qed

text \<open>
  The claim as stated asks that a failed receipt of one link operation stop the run
  before later operations are acted on. On the reference backend \<^verbatim>\<open>setNomin\<close> is
  rejected: its receipt has status \<open>False\<close>, yet \<^verbatim>\<open>setEscrow\<close> and
  \<^verbatim>\<open>setCourt\<close> were submitted before any receipt was awaited, and the run reports
  completion.
\<close>

theorem failed_link_receipt_counterexample:
  "fst (deploy_havven ganache_utils False
          (world0 [''0x01'', ''0x02'', ''0x03'', ''0x04''] [''setNomin''])) =
     Inr (\<lparr>artifact = ''Havven'', address = ''0x01''\<rparr>,
          \<lparr>artifact = ''EtherNomin'', address = ''0x02''\<rparr>,
          \<lparr>artifact = ''Court'', address = ''0x03''\<rparr>,
          \<lparr>status = True, gasUsed = 53001\<rparr>, \<lparr>status = True, gasUsed = 53005\<rparr>,
          \<lparr>status = True, gasUsed = 53003\<rparr>) \<and>
   drop 5 (events (snd (deploy_havven ganache_utils False
          (world0 [''0x01'', ''0x02'', ''0x03'', ''0x04''] [''setNomin''])))) =
     [Submitted 5 \<lparr>target = ''0x01'', fname = ''setNomin'', fargs = [Addr ''0x02'']\<rparr> ''0xM'',
      Submitted 6 \<lparr>target = ''0x01'', fname = ''setEscrow'', fargs = [Addr ''0x04'']\<rparr> ''0xM'',
      Submitted 7 \<lparr>target = ''0x02'', fname = ''setCourt'', fargs = [Addr ''0x03'']\<rparr> ''0xM'',
      Mined [5, 6, 7]] \<and>
   g_receipt (snd (deploy_havven ganache_utils False
          (world0 [''0x01'', ''0x02'', ''0x03'', ''0x04''] [''setNomin'']))) 5 =
     \<lparr>status = False, gasUsed = 21000\<rparr> \<and>
   drop 5 (stdout (snd (deploy_havven ganache_utils False
          (world0 [''0x01'', ''0x02'', ''0x03'', ''0x04''] [''setNomin''])))) =
     [NL @ ''Deployment complete.'' @ NL]"
  by (simp add: ganache_defs deploy_defs)

subsection \<open>Checkpoints around test units\<close>

lemmas node_defs = node_web3_def node_snapshots_def node_call_def node_transact_def
  node_mine_tx_def node_take_snapshot_def node_restore_snapshot_def note_entry_def node0_def
  revert_error_def setTransferFeeRate_def transferFeeRate_def body_sets_rate_def
  body_expects_rate_def mine_transact_def

text \<open>
  Claim C3, as amended. For a unit of \<^verbatim>\<open>TestTokenState\<close>, the class that defines
  \<^verbatim>\<open>setUp\<close> and \<^verbatim>\<open>tearDown\<close>: one checkpoint is taken before the body, and
  the handle it returned is restored on the world the body left, whether the body returned
  or raised; when taking the checkpoint raises, the body does not run. A unit of a class
  without the two methods runs its body and nothing else. On the reference node, whose
  restore puts the saved contract state back, a \<^verbatim>\<open>TestTokenState\<close> unit whose body
  leaves the store of checkpoints alone ends with the contract state it started with.
\<close>

theorem snapshot_taken_and_restored:
  "(take_snapshot S w = (Inr h, w1) \<and> body w1 = (outcome, w2) \<and>
    restore_snapshot S h w2 = (cleanup, w3)
      \<longrightarrow> run_test S TestTokenState body w = (recorded outcome @ recorded cleanup, w3)) \<and>
   (take_snapshot S w = (Inl e, w1)
      \<longrightarrow> run_test S TestTokenState body w = ([e], w1)) \<and>
   (cls \<noteq> TestTokenState
      \<longrightarrow> run_test S cls body w = (recorded (fst (body w)), snd (body w))) \<and>
   ((\<forall>v. saved (snd (nbody v)) = saved v)
      \<longrightarrow> token_owner (snd (run_test node_snapshots TestTokenState nbody nw)) = token_owner nw \<and>
          fee_rate (snd (run_test node_snapshots TestTokenState nbody nw)) = fee_rate nw)"
proof (intro conjI impI)
  assume "take_snapshot S w = (Inr h, w1) \<and> body w1 = (outcome, w2) \<and>
    restore_snapshot S h w2 = (cleanup, w3)"
  then show "run_test S TestTokenState body w = (recorded outcome @ recorded cleanup, w3)"
    by (simp add: run_test_def)
next
  assume "take_snapshot S w = (Inl e, w1)"
  then show "run_test S TestTokenState body w = ([e], w1)"
    by (simp add: run_test_def)
next
  assume "cls \<noteq> TestTokenState"
  then show "run_test S cls body w = (recorded (fst (body w)), snd (body w))"
    by (cases cls) (simp_all add: run_test_def recorded_def split: prod.splits)
next
  assume keeps: "\<forall>v. saved (snd (nbody v)) = saved v"
  define w1 where "w1 = snd (node_take_snapshot nw)"
  define w2 where "w2 = snd (nbody w1)"
  have s: "saved w2 = (next_handle nw, token_owner nw, fee_rate nw) # saved nw"
    using keeps by (simp add: w2_def w1_def node_take_snapshot_def note_entry_def)
  have r: "run_test node_snapshots TestTokenState nbody nw =
             (recorded (fst (nbody w1)) @ recorded (fst (node_restore_snapshot (next_handle nw) w2)),
              snd (node_restore_snapshot (next_handle nw) w2))"
    by (simp add: run_test_def node_snapshots_def node_take_snapshot_def w1_def w2_def
        split: prod.splits)
  show "token_owner (snd (run_test node_snapshots TestTokenState nbody nw)) = token_owner nw"
    unfolding r by (simp add: node_restore_snapshot_def s note_entry_def)
  show "fee_rate (snd (run_test node_snapshots TestTokenState nbody nw)) = fee_rate nw"
    unfolding r by (simp add: node_restore_snapshot_def s note_entry_def)
qed

lemma body_sets_rate_keeps_saved: "saved (snd (body_sets_rate v)) = saved v"
  by (simp add: node_defs split: prod.splits sum.splits)

theorem snapshot_taken_and_restored_witness:
  "fee_rate (snd (body_sets_rate (snd (node_take_snapshot node0)))) = 7 \<and>
   fee_rate (snd (run_test node_snapshots TestTokenState body_sets_rate node0)) = 5 \<and>
   token_owner (snd (run_test node_snapshots TestTokenState body_sets_rate node0)) = ''0xM''"
proof -
  have keeps: "\<forall>v. saved (snd (body_sets_rate v)) = saved v"
    by (simp add: body_sets_rate_keeps_saved)
  have a: "fee_rate (snd (body_sets_rate (snd (node_take_snapshot node0)))) = 7"
    by (simp add: node_defs)
  from snapshot_taken_and_restored [where nbody = body_sets_rate and nw = node0,
      THEN conjunct2, THEN conjunct2, THEN conjunct2, THEN mp, OF keeps] a
  show ?thesis by (simp add: node0_def)
qed

text \<open>
  The claim as stated speaks of every test unit of the suite. Two units of
  \<^verbatim>\<open>TestERC20FeeToken\<close> on the reference node: the first sets the fee rate to 7, no
  checkpoint is taken or restored, and the second, which expects the initial rate 5,
  finds 7 and fails.
\<close>

theorem unit_without_snapshot_counterexample:
  "run_tests_in_order node_snapshots
     [(TestERC20FeeToken, body_sets_rate), (TestERC20FeeToken, body_expects_rate)] node0 =
   ([Exn AssertionError [PInt 5, PInt 7]],
    \<lparr>token_owner = ''0xM'', fee_rate = 7, saved = [], next_handle = 0,
     journal = [Sent 0 (setTransferFeeRate 7) \<lparr>tx_from = Addr ''0xM'', tx_gas = None\<rparr>,
                MinedTx 0 [], Called transferFeeRate]\<rparr>)"
  by (simp add: node_defs run_test_def recorded_def assertEqual_int_def)

subsection \<open>Classification of rejections\<close>

lemma int_eq_32000: "int_eq (- 32000) v \<longleftrightarrow> v = PInt (- 32000)"
  by (cases v) auto

lemma getitem_Inr:
  "getitem a key = Inr v \<longleftrightarrow> (\<exists>kvs. a = PDict kvs \<and> map_of kvs (PStr key) = Some v)"
  by (cases a) (auto split: option.splits)

lemma revert_checks_ok:
  "revert_checks (Exn c as) = Inr () \<longleftrightarrow>
     (\<exists>kvs rest message.
        as = PDict kvs # rest \<and>
        map_of kvs (PStr ''message'') = Some message \<and>
        py_in ''revert'' message = Inr True \<and>
        map_of kvs (PStr ''code'') = Some (PInt (- 32000)))"
proof (cases as)
  case Nil
  then show ?thesis by (simp add: revert_checks_def)
next
  case (Cons a rest)
  show ?thesis
  proof (cases a)
    case (PDict kvs)
    with Cons show ?thesis
      by (auto simp: revert_checks_def assertTrue_def assertEqual_int_def int_eq_32000
          split: option.splits sum.splits if_splits)
  qed (use Cons in \<open>simp_all add: revert_checks_def\<close>)
qed

lemma caught_iff:
  "assertRaises_ValueError outcome = Inr e \<longleftrightarrow> (outcome = Inl e \<and> isinstance_ValueError e)"
  by (auto simp: assertRaises_ValueError_def split: sum.splits if_splits)

lemma isinstance_ValueError_iff:
  "isinstance_ValueError (Exn c as) \<longleftrightarrow> (c = ValueError \<or> (\<exists>n. c = ValueErrorSubclass n))"
  by (cases c) auto

lemma accepted_iff:
  "(case assertRaises_ValueError outcome of Inl e \<Rightarrow> Inl e | Inr error \<Rightarrow> revert_checks error)
     = Inr () \<longleftrightarrow>
   (\<exists>c kvs rest message.
      outcome = Inl (Exn c (PDict kvs # rest)) \<and>
      (c = ValueError \<or> (\<exists>n. c = ValueErrorSubclass n)) \<and>
      map_of kvs (PStr ''message'') = Some message \<and>
      py_in ''revert'' message = Inr True \<and>
      map_of kvs (PStr ''code'') = Some (PInt (- 32000)))"
proof (cases "assertRaises_ValueError outcome")
  case (Inl e)
  then have "\<not> (\<exists>e'. outcome = Inl e' \<and> isinstance_ValueError e')"
    using caught_iff [of outcome] by (metis sum.distinct(1))
  with Inl show ?thesis
    by (auto simp: isinstance_ValueError_iff simp del: isinstance_ValueError.simps)
next
  case (Inr error)
  then have o: "outcome = Inl error" and v: "isinstance_ValueError error"
    by (simp_all add: caught_iff)
  obtain c as where error: "error = Exn c as" by (cases error)
  from Inr o v show ?thesis
    unfolding error by (auto simp: revert_checks_ok isinstance_ValueError_iff simp del: isinstance_ValueError.simps)
qed

text \<open>
  Claim C5. On the read-only path and on the submit path alike, the helper returns
  normally exactly when the asserted operation raised an instance of
  \<^verbatim>\<open>ValueError\<close> whose first argument is a dictionary with a \<^verbatim>\<open>message\<close> that
  contains \<^verbatim>\<open>revert\<close> and the \<^verbatim>\<open>code\<close> \<open>-32000\<close>. An operation that
  returns, an exception of another class (a timeout, a malformed call), and a
  \<^verbatim>\<open>ValueError\<close> with another message or code are not accepted as a rejection.
\<close>

theorem rejection_accepted_iff_revert_signal:
  "(fst (assertCallReverts W function w) = Inr () \<longleftrightarrow>
      (\<exists>c kvs rest message.
         fst (fn_call W function w) = Inl (Exn c (PDict kvs # rest)) \<and>
         (c = ValueError \<or> (\<exists>n. c = ValueErrorSubclass n)) \<and>
         map_of kvs (PStr ''message'') = Some message \<and>
         py_in ''revert'' message = Inr True \<and>
         map_of kvs (PStr ''code'') = Some (PInt (- 32000)))) \<and>
   (fst (assertTransactionReverts W function caller gas w) = Inr () \<longleftrightarrow>
      (\<exists>c kvs rest message.
         fst (mine_transact W function \<lparr>tx_from = caller, tx_gas = Some gas\<rparr> w)
           = Inl (Exn c (PDict kvs # rest)) \<and>
         (c = ValueError \<or> (\<exists>n. c = ValueErrorSubclass n)) \<and>
         map_of kvs (PStr ''message'') = Some message \<and>
         py_in ''revert'' message = Inr True \<and>
         map_of kvs (PStr ''code'') = Some (PInt (- 32000))))"
proof -
  have a: "fst (assertCallReverts W function w) =
        (case assertRaises_ValueError (fst (fn_call W function w)) of
           Inl e \<Rightarrow> Inl e | Inr error \<Rightarrow> revert_checks error)"
    by (simp add: assertCallReverts_def split: prod.splits sum.splits)
  have b: "fst (assertTransactionReverts W function caller gas w) =
        (case assertRaises_ValueError
                (fst (mine_transact W function \<lparr>tx_from = caller, tx_gas = Some gas\<rparr> w)) of
           Inl e \<Rightarrow> Inl e | Inr error \<Rightarrow> revert_checks error)"
    by (simp add: assertTransactionReverts_def split: prod.splits sum.splits)
  show ?thesis
    unfolding a b accepted_iff by (rule conjI) (rule refl)+
qed

theorem rejection_accepted_witness:
  "fst (assertCallReverts node_web3
          \<lparr>target = ''0xT'', fname = ''priceToSpend'', fargs = [Num 1]\<rparr> node0) = Inr () \<and>
   fst (assertTransactionReverts node_web3 (setTransferFeeRate 7) (Addr ''0xEve'')
          default_gas node0) = Inr () \<and>
   fst (assertTransactionReverts node_web3 (setTransferFeeRate 7) (Addr ''0xM'')
          default_gas node0) \<noteq> Inr ()"
proof -
  let ?f = "\<lparr>target = ''0xT'', fname = ''priceToSpend'', fargs = [Num 1]\<rparr>"
  let ?kvs = "[(PStr ''message'', PStr ''VM Exception while processing transaction: revert''),
               (PStr ''code'', PInt (- 32000))]"
  have c: "fst (fn_call node_web3 ?f node0) = Inl (Exn ValueError (PDict ?kvs # []))"
    by (simp add: node_defs)
  have t: "fst (mine_transact node_web3 (setTransferFeeRate 7)
                  \<lparr>tx_from = Addr ''0xEve'', tx_gas = Some default_gas\<rparr> node0)
             = Inl (Exn ValueError (PDict ?kvs # []))"
    by (simp add: node_defs)
  have u: "fst (mine_transact node_web3 (setTransferFeeRate 7)
                  \<lparr>tx_from = Addr ''0xM'', tx_gas = Some default_gas\<rparr> node0)
             = Inr \<lparr>status = True, gasUsed = 21000\<rparr>"
    by (simp add: node_defs)
  have m: "map_of ?kvs (PStr ''message'')
             = Some (PStr ''VM Exception while processing transaction: revert'')"
    and k: "map_of ?kvs (PStr ''code'') = Some (PInt (- 32000))"
    and p: "py_in ''revert'' (PStr ''VM Exception while processing transaction: revert'')
             = Inr True"
    by simp_all
  note T = rejection_accepted_iff_revert_signal
  have a: "fst (assertCallReverts node_web3 ?f node0) = Inr ()"
    using T [of node_web3 ?f node0, THEN conjunct1] c m k p by blast
  have b: "fst (assertTransactionReverts node_web3 (setTransferFeeRate 7) (Addr ''0xEve'')
                  default_gas node0) = Inr ()"
    using T [of node_web3 "setTransferFeeRate 7" node0 "Addr ''0xEve''" default_gas,
             THEN conjunct2] t m k p by blast
  have d: "fst (assertTransactionReverts node_web3 (setTransferFeeRate 7) (Addr ''0xM'')
                  default_gas node0) \<noteq> Inr ()"
    using T [of node_web3 "setTransferFeeRate 7" node0 "Addr ''0xM''" default_gas,
             THEN conjunct2] u by simp
  from a b d show ?thesis by simp
qed

subsection \<open>Operations of the facade\<close>

lemma init_contract:
  "ExternStateFeeTokenInterface_init base contract name ''contract'' = Some (AContract contract)"
  by (simp add: ExternStateFeeTokenInterface_init_def)

lemma init_name:
  "ExternStateFeeTokenInterface_init base contract name ''name'' = Some (AView ''name'' 0)"
  by (simp add: ExternStateFeeTokenInterface_init_def)

lemma init_views:
  "(f, n) \<in> set view_operations \<Longrightarrow>
   ExternStateFeeTokenInterface_init base contract name f = Some (AView f n)"
  unfolding view_operations_def ExternStateFeeTokenInterface_init_def
  by (simp, elim disjE conjE; simp)

lemma init_mutators:
  "(f, n) \<in> set mutating_operations \<Longrightarrow>
   ExternStateFeeTokenInterface_init base contract name f = Some (AMutator f n f)"
  unfolding mutating_operations_def ExternStateFeeTokenInterface_init_def
  by (simp, elim disjE conjE; simp)

lemma prepared_init:
  "prepared (ExternStateFeeTokenInterface_init base contract name) f args =
     Inr \<lparr>target = address contract, fname = f, fargs = args\<rparr>"
  by (simp add: prepared_def init_contract)

text \<open>
  Claim C7. On an instance the constructor built, every read-only operation, called with
  the arguments of the contract function and no sender, performs the contract call and
  returns its decoded value; every mutating operation called without arguments raises
  (the sender is a required parameter), and called with a sender and the arguments it
  submits the contract function with \<^verbatim>\<open>from\<close> set to that sender, hands the
  transaction hash to \<^verbatim>\<open>mine_tx\<close>, and returns the receipt \<^verbatim>\<open>mine_tx\<close> returns.
\<close>

theorem facade_views_and_mutators:
  assumes "self = ExternStateFeeTokenInterface_init base contract name"
  shows
   "(\<forall>(f, n) \<in> set view_operations. \<forall>args. length args = n \<longrightarrow>
       call_attr W self f args w =
         (case fn_call W \<lparr>target = address contract, fname = f, fargs = args\<rparr> w of
            (Inl e, w1) \<Rightarrow> (Inl e, w1)
          | (Inr v, w1) \<Rightarrow> (Inr (Decoded v), w1))) \<and>
    (\<forall>(f, n) \<in> set mutating_operations.
       call_attr W self f [] w = (Inl (Exn TypeError [PStr ''arguments'']), w) \<and>
       (\<forall>sender args. length args = n \<longrightarrow>
          call_attr W self f (sender # args) w =
            (case fn_transact W \<lparr>target = address contract, fname = f, fargs = args\<rparr>
                    \<lparr>tx_from = sender, tx_gas = None\<rparr> w of
               (Inl e, w1) \<Rightarrow> (Inl e, w1)
             | (Inr tx, w1) \<Rightarrow>
                 (case mine_tx W tx [AStr f, AView ''name'' 0] w1 of
                    (Inl e, w2) \<Rightarrow> (Inl e, w2)
                  | (Inr r, w2) \<Rightarrow> (Inr (Receipt r), w2)))))"
proof (intro conjI ballI)
  fix op assume m: "op \<in> set view_operations"
  obtain f n where op: "op = (f, n)" by (cases op)
  from m have l: "ExternStateFeeTokenInterface_init base contract name f = Some (AView f n)"
    unfolding op by (rule init_views)
  show "case op of (f, n) \<Rightarrow> \<forall>args. length args = n \<longrightarrow>
       call_attr W self f args w =
         (case fn_call W \<lparr>target = address contract, fname = f, fargs = args\<rparr> w of
            (Inl e, w1) \<Rightarrow> (Inl e, w1)
          | (Inr v, w1) \<Rightarrow> (Inr (Decoded v), w1))"
    unfolding op assms
    by (simp add: call_attr_def l prepared_init split: prod.splits sum.splits)
next
  fix op assume m: "op \<in> set mutating_operations"
  obtain f n where op: "op = (f, n)" by (cases op)
  from m have l: "ExternStateFeeTokenInterface_init base contract name f = Some (AMutator f n f)"
    unfolding op by (rule init_mutators)
  show "case op of (f, n) \<Rightarrow>
       call_attr W self f [] w = (Inl (Exn TypeError [PStr ''arguments'']), w) \<and>
       (\<forall>sender args. length args = n \<longrightarrow>
          call_attr W self f (sender # args) w =
            (case fn_transact W \<lparr>target = address contract, fname = f, fargs = args\<rparr>
                    \<lparr>tx_from = sender, tx_gas = None\<rparr> w of
               (Inl e, w1) \<Rightarrow> (Inl e, w1)
             | (Inr tx, w1) \<Rightarrow>
                 (case mine_tx W tx [AStr f, AView ''name'' 0] w1 of
                    (Inl e, w2) \<Rightarrow> (Inl e, w2)
                  | (Inr r, w2) \<Rightarrow> (Inr (Receipt r), w2))))"
    unfolding op assms
    by (simp add: call_attr_def l init_name prepared_init split: prod.splits sum.splits)
qed

theorem facade_views_and_mutators_witness:
  "call_attr node_web3
     (ExternStateFeeTokenInterface_init Map.empty
        \<lparr>artifact = ''ExternStateFeeToken'', address = ''0xT''\<rparr> ''FeeToken'')
     ''transferFeeRate'' [] node0 =
     (Inr (Decoded (PInt 5)),
      node0\<lparr>journal := [Called \<lparr>target = ''0xT'', fname = ''transferFeeRate'', fargs = []\<rparr>]\<rparr>) \<and>
   call_attr node_web3
     (ExternStateFeeTokenInterface_init Map.empty
        \<lparr>artifact = ''ExternStateFeeToken'', address = ''0xT''\<rparr> ''FeeToken'')
     ''setTransferFeeRate'' [] node0 = (Inl (Exn TypeError [PStr ''arguments'']), node0) \<and>
   fst (call_attr node_web3
     (ExternStateFeeTokenInterface_init Map.empty
        \<lparr>artifact = ''ExternStateFeeToken'', address = ''0xT''\<rparr> ''FeeToken'')
     ''setTransferFeeRate'' [Addr ''0xM'', Num 7] node0) =
     Inr (Receipt \<lparr>status = True, gasUsed = 21000\<rparr>)"
proof -
  let ?C = "\<lparr>artifact = ''ExternStateFeeToken'', address = ''0xT''\<rparr>"
  note T = facade_views_and_mutators [OF refl, of node_web3 Map.empty ?C "''FeeToken''" node0]
  have v: "(''transferFeeRate'', 0) \<in> set view_operations"
    by (simp add: view_operations_def)
  have m: "(''setTransferFeeRate'', 1) \<in> set mutating_operations"
    by (simp add: mutating_operations_def)
  from T [THEN conjunct1, THEN bspec, OF v] T [THEN conjunct2, THEN bspec, OF m]
  show ?thesis by (simp add: node_defs)
qed

text \<open>
  Claim C9. After construction the attribute \<^verbatim>\<open>name\<close> holds the closure over the
  contract's \<^verbatim>\<open>name()\<close> call, not the string given to the constructor; every
  mutating operation whose submission returns a hash calls \<^verbatim>\<open>mine_tx\<close> with the
  hash, its own label and that closure.
\<close>

theorem name_attribute_is_view_callable:
  "ExternStateFeeTokenInterface_init base contract name ''name'' = Some (AView ''name'' 0) \<and>
   ExternStateFeeTokenInterface_init base contract name ''name'' \<noteq> Some (AStr name) \<and>
   (\<forall>(f, n) \<in> set mutating_operations. \<forall>sender args tx w1.
      length args = n \<longrightarrow>
      fn_transact W \<lparr>target = address contract, fname = f, fargs = args\<rparr>
          \<lparr>tx_from = sender, tx_gas = None\<rparr> w = (Inr tx, w1) \<longrightarrow>
      call_attr W (ExternStateFeeTokenInterface_init base contract name) f (sender # args) w =
        (case mine_tx W tx [AStr f, AView ''name'' 0] w1 of
           (Inl e, w2) \<Rightarrow> (Inl e, w2)
         | (Inr r, w2) \<Rightarrow> (Inr (Receipt r), w2)))"
proof (intro conjI ballI)
  fix op assume m: "op \<in> set mutating_operations"
  obtain f n where op: "op = (f, n)" by (cases op)
  from m have l: "ExternStateFeeTokenInterface_init base contract name f = Some (AMutator f n f)"
    unfolding op by (rule init_mutators)
  show "case op of (f, n) \<Rightarrow> \<forall>sender args tx w1.
      length args = n \<longrightarrow>
      fn_transact W \<lparr>target = address contract, fname = f, fargs = args\<rparr>
          \<lparr>tx_from = sender, tx_gas = None\<rparr> w = (Inr tx, w1) \<longrightarrow>
      call_attr W (ExternStateFeeTokenInterface_init base contract name) f (sender # args) w =
        (case mine_tx W tx [AStr f, AView ''name'' 0] w1 of
           (Inl e, w2) \<Rightarrow> (Inl e, w2)
         | (Inr r, w2) \<Rightarrow> (Inr (Receipt r), w2))"
    unfolding op
    by (simp add: call_attr_def l init_name prepared_init split: prod.splits sum.splits)
qed (simp_all add: init_name)

theorem name_attribute_witness:
  "call_attr node_web3
     (ExternStateFeeTokenInterface_init Map.empty
        \<lparr>artifact = ''ExternStateFeeToken'', address = ''0xT''\<rparr> ''FeeToken'')
     ''setTransferFeeRate'' [Addr ''0xM'', Num 7] node0 =
     (Inr (Receipt \<lparr>status = True, gasUsed = 21000\<rparr>),
      node0\<lparr>fee_rate := 7,
            journal := [Sent 0 (setTransferFeeRate 7) \<lparr>tx_from = Addr ''0xM'', tx_gas = None\<rparr>,
                        MinedTx 0 [AStr ''setTransferFeeRate'', AView ''name'' 0]]\<rparr>)"
proof -
  let ?C = "\<lparr>artifact = ''ExternStateFeeToken'', address = ''0xT''\<rparr>"
  have m: "(''setTransferFeeRate'', 1) \<in> set mutating_operations"
    by (simp add: mutating_operations_def)
  have s: "fn_transact node_web3
             \<lparr>target = address ?C, fname = ''setTransferFeeRate'', fargs = [Num 7]\<rparr>
             \<lparr>tx_from = Addr ''0xM'', tx_gas = None\<rparr> node0 =
           (Inr 0, node0\<lparr>fee_rate := 7,
              journal := [Sent 0 (setTransferFeeRate 7)
                            \<lparr>tx_from = Addr ''0xM'', tx_gas = None\<rparr>]\<rparr>)"
    by (simp add: node_defs)
  from name_attribute_is_view_callable [of Map.empty ?C "''FeeToken''" node_web3 node0,
      THEN conjunct2, THEN conjunct2, THEN bspec, OF m]
  have "call_attr node_web3 (ExternStateFeeTokenInterface_init Map.empty ?C ''FeeToken'')
          ''setTransferFeeRate'' [Addr ''0xM'', Num 7] node0 =
        (case mine_tx node_web3 0 [AStr ''setTransferFeeRate'', AView ''name'' 0]
                (node0\<lparr>fee_rate := 7,
                   journal := [Sent 0 (setTransferFeeRate 7)
                                 \<lparr>tx_from = Addr ''0xM'', tx_gas = None\<rparr>]\<rparr>) of
           (Inl e, w2) \<Rightarrow> (Inl e, w2)
         | (Inr r, w2) \<Rightarrow> (Inr (Receipt r), w2))"
    using s by simp
  then show ?thesis by (simp add: node_defs)
qed

subsection \<open>Exit status of the test runner\<close>

text \<open>
  Claim C8. The process ends with status 0 exactly when the backend was launched, the
  suite was assembled, the runner returned a result, and that result holds no failure, no
  error and no unexpected success; in every other case the status is 1.
\<close>

theorem exit_status_zero_iff_suite_successful:
  "(exit_status (fst (run_tests_main R w)) = 0 \<longleftrightarrow>
      (\<exists>w1 test_suite w2 result w3.
         Popen R command (out R ''Launching ganache...'' w) = (Inr (), w1) \<and>
         assemble_suite R (out R (''Done.'' @ NL) (sleep R 5 w1)) = (Inr test_suite, w2) \<and>
         run_suite R test_suite (out R (''Running test suite...'' @ NL @ NL) w2)
           = (Inr result, w3) \<and>
         failures result = [] \<and> errors result = [] \<and> unexpectedSuccesses result = [])) \<and>
   (exit_status (fst (run_tests_main R w)) = 0 \<or> exit_status (fst (run_tests_main R w)) = 1)"
  unfolding run_tests_main_def wasSuccessful_def
  by (auto split: prod.splits sum.splits)

theorem exit_status_witness:
  "exit_status (fst (run_tests_main
      (demo_runner [(''test_Owned'', PBool True), (''test_TokenState'', PBool False)] [])
      [])) = 0 \<and>
   exit_status (fst (run_tests_main
      (demo_runner [(''test_Owned'', PBool True), (''test_TokenState'', PBool False)]
         [''test_change_owner''])
      [])) = 1"
proof -
  let ?ok = "demo_runner [(''test_Owned'', PBool True), (''test_TokenState'', PBool False)] []"
  let ?bad = "demo_runner [(''test_Owned'', PBool True), (''test_TokenState'', PBool False)]
                [''test_change_owner'']"
  have "\<exists>w1 test_suite w2 result w3.
         Popen ?ok command (out ?ok ''Launching ganache...'' []) = (Inr (), w1) \<and>
         assemble_suite ?ok (out ?ok (''Done.'' @ NL) (sleep ?ok 5 w1)) = (Inr test_suite, w2) \<and>
         run_suite ?ok test_suite (out ?ok (''Running test suite...'' @ NL @ NL) w2)
           = (Inr result, w3) \<and>
         failures result = [] \<and> errors result = [] \<and> unexpectedSuccesses result = []"
    by (simp add: demo_runner_def assemble_suite_def tests_package_def)
  then have a: "exit_status (fst (run_tests_main ?ok [])) = 0"
    using exit_status_zero_iff_suite_successful [of ?ok "[]"] by blast
  have "\<not> (\<exists>w1 test_suite w2 result w3.
         Popen ?bad command (out ?bad ''Launching ganache...'' []) = (Inr (), w1) \<and>
         assemble_suite ?bad (out ?bad (''Done.'' @ NL) (sleep ?bad 5 w1)) = (Inr test_suite, w2) \<and>
         run_suite ?bad test_suite (out ?bad (''Running test suite...'' @ NL @ NL) w2)
           = (Inr result, w3) \<and>
         failures result = [] \<and> errors result = [] \<and> unexpectedSuccesses result = [])"
    by (auto simp add: demo_runner_def assemble_suite_def tests_package_def)
  then have b: "exit_status (fst (run_tests_main ?bad [])) = 1"
    using exit_status_zero_iff_suite_successful [of ?bad "[]"] by blast
  from a b show ?thesis by simp
qed

subsection \<open>Assembly of the suite\<close>

lemma add_enabled_members:
  "add_enabled R test_settings items acc = Inr test_suite \<Longrightarrow>
   t \<in> set test_suite \<longleftrightarrow>
     (t \<in> set acc \<or>
      (\<exists>item entry m. item \<in> set items \<and> map_of test_settings item = Some entry \<and>
         truthy entry \<and> tests_getattr R item = Inr m \<and> t \<in> set (loadTestsFromModule R m)))"
proof (induction items arbitrary: acc)
  case Nil
  then show ?case by simp
next
  case (Cons item items)
  from Cons.prems obtain entry where e: "map_of test_settings item = Some entry"
    by (auto split: option.splits)
  show ?case
  proof (cases "truthy entry")
    case False
    with Cons.prems e have "add_enabled R test_settings items acc = Inr test_suite" by simp
    from Cons.IH [OF this] False e show ?thesis by auto
  next
    case True
    with Cons.prems e obtain m where m: "tests_getattr R item = Inr m"
      and r: "add_enabled R test_settings items (acc @ loadTestsFromModule R m) = Inr test_suite"
      by (auto split: sum.splits)
    from Cons.IH [OF r] True e m show ?thesis by auto
  qed
qed

text \<open>
  Claim C10. When the loop over the settings completes, a test is in the suite exactly
  when it is one of the tests loaded from a module whose entry in the settings is truthy;
  a module with a falsy entry contributes nothing.
\<close>

theorem suite_holds_tests_of_enabled_modules:
  assumes "add_enabled R test_settings (map fst test_settings) [] = Inr test_suite"
  shows "t \<in> set test_suite \<longleftrightarrow>
           (\<exists>item entry m. map_of test_settings item = Some entry \<and> truthy entry \<and>
              tests_getattr R item = Inr m \<and> t \<in> set (loadTestsFromModule R m))"
proof
  assume "t \<in> set test_suite"
  with add_enabled_members [OF assms, of t]
  show "\<exists>item entry m. map_of test_settings item = Some entry \<and> truthy entry \<and>
          tests_getattr R item = Inr m \<and> t \<in> set (loadTestsFromModule R m)"
    by auto
next
  assume "\<exists>item entry m. map_of test_settings item = Some entry \<and> truthy entry \<and>
            tests_getattr R item = Inr m \<and> t \<in> set (loadTestsFromModule R m)"
  then obtain item entry m where e: "map_of test_settings item = Some entry"
    and rest: "truthy entry" "tests_getattr R item = Inr m" "t \<in> set (loadTestsFromModule R m)"
    by blast
  from e have "item \<in> set (map fst test_settings)"
    by (metis map_of_eq_None_iff option.distinct(1) set_map)
  with e rest add_enabled_members [OF assms, of t] show "t \<in> set test_suite"
    by blast
qed

theorem suite_holds_tests_of_enabled_modules_witness:
  "(\<exists>item entry m.
      map_of [(''test_Owned'', PBool True), (''test_TokenState'', PInt 0),
              (''test_ERC20FeeToken'', PInt 1)] item = Some entry \<and> truthy entry \<and>
      tests_package item = Inr m \<and> ''test_change_owner'' \<in> set m) \<and>
   \<not> (\<exists>item entry m.
      map_of [(''test_Owned'', PBool True), (''test_TokenState'', PInt 0),
              (''test_ERC20FeeToken'', PInt 1)] item = Some entry \<and> truthy entry \<and>
      tests_package item = Inr m \<and> ''test_setAllowance'' \<in> set m)"
proof -
  let ?settings = "[(''test_Owned'', PBool True), (''test_TokenState'', PInt 0),
                    (''test_ERC20FeeToken'', PInt 1)]"
  let ?R = "demo_runner ?settings []"
  have run: "add_enabled ?R ?settings (map fst ?settings) [] =
               Inr [''test_owner_is_master'', ''test_change_owner'',
                    ''test_change_invalid_owner'', ''test_constructor'']"
    by (simp add: demo_runner_def tests_package_def)
  have g: "tests_getattr ?R = tests_package" and l: "loadTestsFromModule ?R = (\<lambda>m. m)"
    by (simp_all add: demo_runner_def)
  from suite_holds_tests_of_enabled_modules [OF run, of "''test_change_owner''"]
       suite_holds_tests_of_enabled_modules [OF run, of "''test_setAllowance''"]
  show ?thesis unfolding g l by simp
qed

end
